theory Spec2Isabelle
  imports Complex_Main "HOL-Library.AList" "HOL-Library.Sublist"
begin

section \<open>Python values\<close>

text \<open>
  The workflow of \<^verbatim>\<open>src/main.py\<close> is driven by two JSON documents (the settings
  file and the internal settings it points to) and works on the cells of a pandas
  data frame. Both hold plain Python values, modelled by one datatype. A dictionary
  is an association list in insertion order with string keys (what \<^verbatim>\<open>json.load\<close>
  produces). A finite float is given by its exact rational value; \<open>PNaN\<close> is the
  float \<^verbatim>\<open>nan\<close> (the missing cell of pandas). The infinities are left out: the code
  only asks for their truth value and compares them with \<^verbatim>\<open>1\<close> .. \<^verbatim>\<open>4\<close>, where they
  behave like any other non-zero float.
\<close>

datatype pyval =
    PNone
  | PBool bool
  | PInt int
  | PFloat rat
  | PNaN
  | PStr string
  | PList "pyval list"
  | PDict "(string \<times> pyval) list"

text \<open>
  The text of the \<^verbatim>\<open>Settingserror\<close> messages, by the values the f-strings
  interpolate: the requirement list or group, and the tool.
\<close>

datatype settings_msg =
    MustContainSettings
  | MustContainPaths
  | MissingPaths pyval string
  | MissingSettings pyval string
  | MissingOptionalPaths pyval string
  | MissingOptionalSettings pyval string
  | ToxtreeModule pyval

datatype error =
    AttributeError
  | KeyError string
  | TypeError
  | ValueError
  | NetworkXError
  | Settingserror settings_msg
  | ExternalError string

fun andThen :: "error + 'a \<Rightarrow> ('a \<Rightarrow> error + 'b) \<Rightarrow> error + 'b" where
  "andThen (Inl e) f = Inl e"
| "andThen (Inr x) f = f x"

text \<open>A \<^verbatim>\<open>for\<close> loop whose body may raise: the first exception ends the loop.\<close>

fun for_each :: "('a \<Rightarrow> 's \<Rightarrow> error + 's) \<Rightarrow> 'a list \<Rightarrow> 's \<Rightarrow> error + 's" where
  "for_each f [] s = Inr s"
| "for_each f (x # xs) s = andThen (f x s) (for_each f xs)"

text \<open>Truth value testing (\<^verbatim>\<open>if v\<close>, \<^verbatim>\<open>not v\<close>).\<close>

fun truthy :: "pyval \<Rightarrow> bool" where
  "truthy PNone = False"
| "truthy (PBool b) = b"
| "truthy (PInt i) = (i \<noteq> 0)"
| "truthy (PFloat r) = (r \<noteq> 0)"
| "truthy PNaN = True"
| "truthy (PStr s) = (s \<noteq> [])"
| "truthy (PList xs) = (xs \<noteq> [])"
| "truthy (PDict d) = (d \<noteq> [])"

text \<open>\<^verbatim>\<open>v == "..."\<close> and \<^verbatim>\<open>v == n\<close> for an integer literal: numbers of any type
  (booleans too) are compared by value, \<^verbatim>\<open>nan\<close> equals nothing.\<close>

fun eq_str :: "pyval \<Rightarrow> string \<Rightarrow> bool" where
  "eq_str (PStr s) t = (s = t)"
| "eq_str _ t = False"

fun eq_int :: "pyval \<Rightarrow> int \<Rightarrow> bool" where
  "eq_int (PInt i) n = (i = n)"
| "eq_int (PFloat r) n = (r = of_int n)"
| "eq_int (PBool b) n = ((if b then 1 else 0) = n)"
| "eq_int _ n = False"

text \<open>\<^verbatim>\<open>a == b\<close> between two values: numbers by value, everything else by
  structure (so two containers are equal when they are the same text; Python also
  equates dictionaries that differ in key order and containers whose numbers differ
  in type, which the code never compares).\<close>

fun num_val :: "pyval \<Rightarrow> rat option" where
  "num_val (PBool b) = Some (if b then 1 else 0)"
| "num_val (PInt i) = Some (of_int i)"
| "num_val (PFloat r) = Some r"
| "num_val _ = None"

definition py_eq :: "pyval \<Rightarrow> pyval \<Rightarrow> bool" where
  "py_eq a b =
     (case num_val a of
        Some x \<Rightarrow> (case num_val b of Some y \<Rightarrow> x = y | None \<Rightarrow> False)
      | None \<Rightarrow> (case num_val b of Some y \<Rightarrow> False | None \<Rightarrow> a \<noteq> PNaN \<and> a = b))"

fun isinstance_str :: "pyval \<Rightarrow> bool" where
  "isinstance_str (PStr s) = True"
| "isinstance_str _ = False"

text \<open>\<^verbatim>\<open>d.get(k, default)\<close>: only a dictionary has the method.\<close>

fun py_get :: "pyval \<Rightarrow> string \<Rightarrow> pyval \<Rightarrow> error + pyval" where
  "py_get (PDict d) k dflt = Inr (case map_of d k of None \<Rightarrow> dflt | Some v \<Rightarrow> v)"
| "py_get _ k dflt = Inl AttributeError"

text \<open>\<^verbatim>\<open>d[k]\<close> for a string key: \<^verbatim>\<open>KeyError\<close> on a dictionary without the key,
  \<^verbatim>\<open>TypeError\<close> on every other value.\<close>

fun py_index :: "pyval \<Rightarrow> string \<Rightarrow> error + pyval" where
  "py_index (PDict d) k = (case map_of d k of None \<Rightarrow> Inl (KeyError k) | Some v \<Rightarrow> Inr v)"
| "py_index _ k = Inl TypeError"

text \<open>\<^verbatim>\<open>d[k] = v\<close> for a string key: replaces the value in place or appends the key.\<close>

fun py_setitem :: "pyval \<Rightarrow> string \<Rightarrow> pyval \<Rightarrow> error + pyval" where
  "py_setitem (PDict d) k v = Inr (PDict (AList.update k v d))"
| "py_setitem _ k v = Inl TypeError"

text \<open>\<^verbatim>\<open>for x in v\<close>: the elements of a list, the keys of a dictionary, the
  characters of a string; the other values are not iterable.\<close>

fun py_iter :: "pyval \<Rightarrow> error + pyval list" where
  "py_iter (PList xs) = Inr xs"
| "py_iter (PDict d) = Inr (map (\<lambda>kv. PStr (fst kv)) d)"
| "py_iter (PStr s) = Inr (map (\<lambda>c. PStr [c]) s)"
| "py_iter _ = Inl TypeError"

fun keys_of :: "pyval \<Rightarrow> string set" where
  "keys_of (PDict d) = fst ` set d"
| "keys_of _ = {}"

text \<open>The decimal text of an integer, for \<^verbatim>\<open>str\<close>.\<close>

fun digit_char :: "nat \<Rightarrow> char" where
  "digit_char n = char_of (48 + n)"

function digits :: "nat \<Rightarrow> string" where
  "digits n = (if n < 10 then [digit_char n] else digits (n div 10) @ [digit_char (n mod 10)])"
  by pat_completeness auto
termination
  by (relation "measure (\<lambda>n. n)") auto

definition str_int :: "int \<Rightarrow> string" where
  "str_int i = (if i < 0 then CHR ''-'' # digits (nat (- i)) else digits (nat i))"

text \<open>
  A Python set of strings is iterated in an order that depends on the hashes of its
  members and on the order of insertion. The model leaves that order to a
  parameter: \<open>key xs\<close> ranks the members of the set built by inserting \<open>xs\<close>, and the
  iteration visits each member once, by rank. Every order of every set is the order
  of some \<open>key\<close>.
\<close>

definition py_set_iter :: "(string list \<Rightarrow> string \<Rightarrow> nat) \<Rightarrow> string list \<Rightarrow> string list" where
  "py_set_iter key xs = sort_key (key xs) (remdups xs)"

section \<open>Data frames and graphs\<close>

text \<open>
  A row of a data frame (a pandas \<^verbatim>\<open>Series\<close>) is an association list from column
  to cell. A data frame is its column list and its rows, each with its index label;
  every row has the columns of the frame.
\<close>

type_synonym row = "(string \<times> pyval) list"

record dataframe =
  columns :: "string list"
  rows :: "(pyval \<times> row) list"

text \<open>A networkx graph: nodes and undirected edges, each with its attributes.\<close>

record nx_graph =
  nodes :: "(pyval \<times> row) list"
  edges :: "((pyval \<times> pyval) \<times> row) list"

text \<open>
  What an attribute of the runner or the result of a collaborator can be: a plain
  value, a data frame, a graph, a class or module used as a placeholder
  (\<^verbatim>\<open>self.graph = nx.Graph\<close>), or an object of a collaborator known by a handle only.
\<close>

datatype obj =
    Val pyval
  | Df dataframe
  | Graph nx_graph
  | PyClass string
  | Handle nat

section \<open>External collaborators\<close>

text \<open>
  \<^verbatim>\<open>src/main.py\<close> imports its helpers from \<^verbatim>\<open>src.myworkflow\<close> (not part of the
  sources at hand) and from the Python library. They are parameters of the model.
  \<open>'w\<close> is the state of the world outside the program (the file system).
  \<open>external\<close> stands for the tools and parsers (\<^verbatim>\<open>run_sirius\<close>,
  \<^verbatim>\<open>parse_classyfire_sdf\<close>, \<^verbatim>\<open>integrate_df_cols_to_df\<close>, ...): the name of the
  function called, its arguments in the order of the call, and the world.

  The last five parameters are what pandas decides and what differs between its
  versions (the sources pin none):

  \<^item> \<open>column_cell vs v\<close> is the cell stored for a value \<open>v\<close> that is no text, in a
    column built from the values \<open>vs\<close> (the dtype inference: beside floats \<^verbatim>\<open>None\<close>
    becomes \<^verbatim>\<open>nan\<close> and an integer a float). A text is always stored as it is.

  \<^item> \<open>setitem_refused df row k\<close> says whether a row of \<open>df\<close>, handed to a function by
    \<^verbatim>\<open>apply\<close>, refuses the assignment \<^verbatim>\<open>row[k] = "N/A"\<close> (pandas 3 raises
    \<^verbatim>\<open>TypeError\<close> on a row of numbers, pandas 2 never does).

  \<^item> \<open>writes_through df\<close> says whether such an assignment to a cell that the row
    has reaches the frame itself (it can in pandas 2, for a frame of one dtype).

  \<^item> \<open>apply_empty c df\<close> is what \<^verbatim>\<open>df[c] = df.apply(f, axis=1)\<close> makes of a frame
    without rows or without columns, where \<^verbatim>\<open>f\<close> is not called row by row.

  \<^item> \<open>str_keeps_missing\<close> says whether \<^verbatim>\<open>astype(str)\<close> leaves a missing cell
    missing (pandas 3) instead of making the text \<^verbatim>\<open>"nan"\<close> or \<^verbatim>\<open>"None"\<close> of it
    (pandas 2).
\<close>

record 'w env =
  json_from_string_or_file :: "pyval \<Rightarrow> 'w \<Rightarrow> error + pyval"
  validate_dictkeys :: "pyval \<Rightarrow> pyval \<Rightarrow> error + bool"
  ctime :: string
  mkdir :: "string \<Rightarrow> 'w \<Rightarrow> error + 'w"
  set_order :: "string list \<Rightarrow> string \<Rightarrow> nat"
  repr_other :: "pyval \<Rightarrow> string"
  read_graphml :: "pyval \<Rightarrow> 'w \<Rightarrow> error + obj"
  network_to_edgelist_and_nodes_df :: "obj \<Rightarrow> error + obj \<times> obj"
  external :: "string \<Rightarrow> obj list \<Rightarrow> 'w \<Rightarrow> error + obj \<times> 'w"
  convert_missing :: "pyval \<Rightarrow> pyval"
  filter_component :: "nx_graph \<Rightarrow> int \<Rightarrow> error + nx_graph"
  write_graphml :: "nx_graph \<Rightarrow> string \<Rightarrow> 'w \<Rightarrow> error + 'w"
  column_cell :: "pyval list \<Rightarrow> pyval \<Rightarrow> pyval"
  setitem_refused :: "dataframe \<Rightarrow> row \<Rightarrow> string \<Rightarrow> bool"
  writes_through :: "dataframe \<Rightarrow> bool"
  apply_empty :: "string \<Rightarrow> dataframe \<Rightarrow> error + dataframe"
  str_keeps_missing :: bool

text \<open>\<^verbatim>\<open>str(v)\<close>, as the f-strings and \<^verbatim>\<open>astype(str)\<close> apply it; the text of a float
  or of a container is left to the parameter \<open>repr\<close>.\<close>

fun py_str :: "(pyval \<Rightarrow> string) \<Rightarrow> pyval \<Rightarrow> string" where
  "py_str repr (PStr s) = s"
| "py_str repr PNone = ''None''"
| "py_str repr (PBool b) = (if b then ''True'' else ''False'')"
| "py_str repr (PInt i) = str_int i"
| "py_str repr PNaN = ''nan''"
| "py_str repr v = repr v"

text \<open>
  Modelled from the spec: \<^verbatim>\<open>validate_dictkeys\<close> of \<^verbatim>\<open>src/myworkflow/util.py\<close> is
  missing. The spec's contract (section 4.1) is \<^verbatim>\<open>validate(document, requiredKeys)\<close>,
  which fails when a required key is missing: all keys must be present. The
  general definitions below take the helper as a parameter; this one is used where
  a concrete run is evaluated.
\<close>

fun has_key :: "pyval \<Rightarrow> pyval \<Rightarrow> bool" where
  "has_key d (PStr k) = (k \<in> keys_of d)"
| "has_key d _ = False"

fun validate_dictkeys_spec :: "pyval \<Rightarrow> pyval \<Rightarrow> error + bool" where
  "validate_dictkeys_spec d (PList ks) = Inr (list_all (has_key d) ks)"
| "validate_dictkeys_spec d ks = Inl TypeError"

section \<open>WorkflowSettings\<close>

text \<open>
  The attributes of a \<^verbatim>\<open>WorkflowSettings\<close> object. \<^verbatim>\<open>self.paths\<close> is the very
  dictionary \<^verbatim>\<open>self.input["paths"]\<close>, and each tool attribute is the dictionary
  \<^verbatim>\<open>self.input.get(tool)\<close> when the input has one; the code never reads those
  entries through \<^verbatim>\<open>self.input\<close> again (the tools are never called \<^verbatim>\<open>paths\<close>), so
  the fields are kept apart. A tool attribute that was never assigned is \<open>None\<close>.
\<close>

record settings =
  input :: pyval
  config :: pyval
  paths :: pyval
  name :: pyval
  output_folder :: string
  to_run :: "string list"
  to_integrate :: "string list"
  mzmine :: "pyval option"
  sirius :: "pyval option"
  siriusdb :: "pyval option"
  matchms :: "pyval option"
  toxtree :: "pyval option"
  classyfire :: "pyval option"
  ms2lda :: "pyval option"

definition required_settings :: pyval where
  "required_settings = PList [PStr ''paths'', PStr ''run_tools'', PStr ''integrate_tools'']"

definition required_paths :: pyval where
  "required_paths = PList [PStr ''base_output_folder'', PStr ''internal_settings'']"

definition validate_required_settings :: "'w env \<Rightarrow> pyval \<Rightarrow> error + unit" where
  "validate_required_settings env inp =
     andThen (validate_dictkeys env inp required_settings) (\<lambda>ok1.
       if \<not> ok1 then Inl (Settingserror MustContainSettings)
       else andThen (py_index inp ''paths'') (\<lambda>p.
         andThen (validate_dictkeys env p required_paths) (\<lambda>ok2.
           if \<not> ok2 then Inl (Settingserror MustContainPaths) else Inr ())))"

text \<open>\<^verbatim>\<open>[tool for tool in available_tools if self.input[setting].get(tool) == "True"]\<close>\<close>

fun select_used_tools :: "pyval \<Rightarrow> string list \<Rightarrow> string \<Rightarrow> error + string list" where
  "select_used_tools inp [] setting = Inr []"
| "select_used_tools inp (tool # tools) setting =
     andThen (py_index inp setting) (\<lambda>d.
       andThen (py_get d tool PNone) (\<lambda>v.
         andThen (select_used_tools inp tools setting) (\<lambda>rest.
           Inr (if eq_str v ''True'' then tool # rest else rest))))"

text \<open>Several \<^verbatim>\<open>self.paths[k] = v\<close> in a row.\<close>

fun set_paths :: "(string \<times> string) list \<Rightarrow> pyval \<Rightarrow> error + pyval" where
  "set_paths [] p = Inr p"
| "set_paths ((k, v) # kvs) p = andThen (py_setitem p k (PStr v)) (set_paths kvs)"

text \<open>One iteration of the loop of \<^verbatim>\<open>set_tool_settings\<close>.\<close>

definition set_tool_setting :: "'w env \<Rightarrow> string \<Rightarrow> settings \<times> 'w \<Rightarrow> error + settings \<times> 'w" where
  "set_tool_setting env tool sw = (case sw of (s, w) \<Rightarrow>
     andThen (py_get (input s) tool (PDict [])) (\<lambda>tool_settings.
       if tool = ''mzmine'' then
         andThen (set_paths
           [(''input_mgf'', output_folder s @ ''/mzmine/mzmine_iimn_fbmn.mgf''),
            (''sirius_mgf'', output_folder s @ ''/mzmine/mzmine_sirius.mgf''),
            (''quant_table'', output_folder s @ ''/mzmine/mzmine_iimn_fbmn_quant_full.csv'')]
           (paths s))
           (\<lambda>p. Inr (s\<lparr>mzmine := Some tool_settings, paths := p\<rparr>, w))
       else if tool = ''sirius'' then
         (let sirius_loc = output_folder s @ ''/sirius/'' in
          andThen (mkdir env sirius_loc w) (\<lambda>w'.
            andThen (set_paths
              [(''canopus_output'', sirius_loc @ ''canopus_structure_summary.tsv''),
               (''csi:fingerid_output'', sirius_loc @ ''structure_identifications.tsv''),
               (''sirius_tool_output'', sirius_loc @ ''formula_identifications.tsv''),
               (''sirius_output'', sirius_loc)]
              (paths s))
              (\<lambda>p. Inr (s\<lparr>sirius := Some tool_settings, paths := p\<rparr>, w'))))
       else if tool = ''sirius_db'' then
         (let siriusdb_loc = output_folder s @ ''/sirius_db/'' in
          andThen (set_paths
            [(''canopus_db_output'', siriusdb_loc @ ''canopus_structure_summary.tsv''),
             (''csi:fingerid_db_output'', siriusdb_loc @ ''structure_identifications.tsv''),
             (''sirius_tool_db_output'', siriusdb_loc @ ''formula_identifications.tsv''),
             (''sirius_db_output'', siriusdb_loc)]
            (paths s))
            (\<lambda>p. Inr (s\<lparr>siriusdb := Some tool_settings, paths := p\<rparr>, w)))
       else if tool = ''matchms'' then
         andThen (set_paths [(''base_network'', output_folder s @ ''/base_network.graphml'')] (paths s))
           (\<lambda>p. Inr (s\<lparr>matchms := Some tool_settings, paths := p\<rparr>, w))
       else if tool = ''toxtree'' then
         andThen (set_paths [(''toxtree_output'', output_folder s @ ''/toxtree_results.csv'')] (paths s))
           (\<lambda>p. Inr (s\<lparr>toxtree := Some tool_settings, paths := p\<rparr>, w))
       else if tool = ''classyfire'' then
         andThen (set_paths [(''classyfire_output'', output_folder s @ ''/classyfire_results.sdf'')] (paths s))
           (\<lambda>p. Inr (s\<lparr>classyfire := Some tool_settings, paths := p\<rparr>, w))
       else if tool = ''ms2lda'' then
         (let ms2lda_loc = output_folder s @ ''/ms2lda'' in
          andThen (set_paths
            [(''ms2lda_output'', ms2lda_loc),
             (''ms2lda_results_db'', output_folder s @ ''/ms2lda/motifDB_optimized.xlsx'')]
            (paths s))
            (\<lambda>p. Inr (s\<lparr>ms2lda := Some tool_settings, paths := p\<rparr>, w)))
       else Inr (s, w)))"

definition set_tool_settings :: "'w env \<Rightarrow> string list \<Rightarrow> settings \<times> 'w \<Rightarrow> error + settings \<times> 'w" where
  "set_tool_settings env tools sw = for_each (set_tool_setting env) tools sw"

text \<open>The four requirement lists of a tool and a goal, each \<^verbatim>\<open>[]\<close> when not declared.\<close>

definition get_tool_requirements :: "settings \<Rightarrow> string \<Rightarrow> string \<Rightarrow> error + pyval \<times> pyval \<times> pyval \<times> pyval" where
  "get_tool_requirements s tool goal =
     andThen (py_get (config s) tool (PDict [])) (\<lambda>c1.
     andThen (py_get c1 goal (PDict [])) (\<lambda>c2.
     andThen (py_get c2 ''requirements'' (PDict [])) (\<lambda>cfg.
     andThen (py_get cfg ''paths'' (PList [])) (\<lambda>req_paths.
     andThen (py_get cfg ''settings'' (PList [])) (\<lambda>req_settings.
     andThen (py_get cfg ''optional_paths'' (PList [])) (\<lambda>opt_paths.
     andThen (py_get cfg ''optional_settings'' (PList [])) (\<lambda>opt_settings.
       Inr (req_paths, req_settings, opt_paths, opt_settings))))))))"

text \<open>The two loops of \<^verbatim>\<open>validate_tool_requirements\<close> over the optional groups: each
  group goes through the same \<^verbatim>\<open>validate_dictkeys\<close> as the required lists.\<close>

fun check_groups :: "(pyval \<Rightarrow> pyval \<Rightarrow> error + bool) \<Rightarrow> pyval \<Rightarrow> (pyval \<Rightarrow> settings_msg) \<Rightarrow> pyval list \<Rightarrow> error + unit" where
  "check_groups vdk d msg [] = Inr ()"
| "check_groups vdk d msg (combination # rest) =
     andThen (vdk d combination) (\<lambda>ok.
       if \<not> ok then Inl (Settingserror (msg combination)) else check_groups vdk d msg rest)"

definition validate_tool_requirements ::
  "'w env \<Rightarrow> settings \<Rightarrow> string \<Rightarrow> pyval \<times> pyval \<times> pyval \<times> pyval \<Rightarrow> error + unit" where
  "validate_tool_requirements env s tool requirements =
     (case requirements of (req_paths, req_settings, opt_paths, opt_settings) \<Rightarrow>
        andThen (validate_dictkeys env (paths s) req_paths) (\<lambda>ok1.
          if \<not> ok1 then Inl (Settingserror (MissingPaths req_paths tool))
          else andThen (py_get (input s) tool PNone) (\<lambda>tool_input.
            andThen (validate_dictkeys env tool_input req_settings) (\<lambda>ok2.
              if \<not> ok2 then Inl (Settingserror (MissingSettings req_settings tool))
              else andThen (py_iter opt_paths) (\<lambda>groups.
                andThen (check_groups (validate_dictkeys env) (paths s) (\<lambda>c. MissingOptionalPaths c tool) groups) (\<lambda>_.
                  andThen (py_iter opt_settings) (\<lambda>sgroups.
                    andThen (py_get (input s) tool PNone) (\<lambda>tool_input2.
                      check_groups (validate_dictkeys env) tool_input2 (\<lambda>c. MissingOptionalSettings c tool) sgroups))))))))"

definition check_tool_requirement :: "'w env \<Rightarrow> string \<Rightarrow> string \<Rightarrow> settings \<Rightarrow> error + settings" where
  "check_tool_requirement env goal tool s =
     andThen (get_tool_requirements s tool goal) (\<lambda>requirements.
       andThen (validate_tool_requirements env s tool requirements) (\<lambda>_. Inr s))"

definition check_tool_requirements :: "'w env \<Rightarrow> string list \<Rightarrow> string \<Rightarrow> settings \<Rightarrow> error + settings" where
  "check_tool_requirements env tools goal s = for_each (check_tool_requirement env goal) tools s"

text \<open>\<^verbatim>\<open>ctime().replace(" ","_")\<close>\<close>

definition default_name :: "string \<Rightarrow> string" where
  "default_name t = map (\<lambda>c. if c = CHR '' '' then CHR ''_'' else c) t"

text \<open>
  \<^verbatim>\<open>WorkflowSettings.__init__\<close>, in two parts. The first part is the constructor
  down to \<^verbatim>\<open>self.set_tool_settings(set(self.to_run+self.to_integrate))\<close>: it
  loads and checks the document, derives the attributes and lets every selected
  tool register its paths.
\<close>

definition WorkflowSettings_setup ::
  "'w env \<Rightarrow> pyval \<Rightarrow> string list \<Rightarrow> string list \<Rightarrow> 'w \<Rightarrow> error + settings \<times> 'w" where
  "WorkflowSettings_setup env settings_json available_tools available_integrations w =
     andThen (json_from_string_or_file env settings_json w) (\<lambda>inp.
     andThen (validate_required_settings env inp) (\<lambda>_.
     andThen (py_index inp ''paths'') (\<lambda>p0.
     andThen (py_index p0 ''internal_settings'') (\<lambda>fn.
     andThen (json_from_string_or_file env fn w) (\<lambda>cfg.
     andThen (py_index inp ''paths'') (\<lambda>p.
     andThen (py_get p ''name'' (PStr (default_name (ctime env)))) (\<lambda>nm.
     andThen (py_get p ''base_output_folder'' PNone) (\<lambda>base.
       (let out = py_str (repr_other env) base @ ''/'' @ py_str (repr_other env) nm in
        andThen (mkdir env out w) (\<lambda>w1.
        andThen (select_used_tools inp available_tools ''run_tools'') (\<lambda>run.
        andThen (select_used_tools inp available_integrations ''integrate_tools'') (\<lambda>integ.
          set_tool_settings env (py_set_iter (set_order env) (run @ integ))
            (\<lparr>input = inp, config = cfg, paths = p, name = nm, output_folder = out,
              to_run = run, to_integrate = integ, mzmine = None, sirius = None,
              siriusdb = None, matchms = None, toxtree = None, classyfire = None,
              ms2lda = None\<rparr>, w1)))))))))))))"

text \<open>The second part: the four calls of \<^verbatim>\<open>check_tool_requirements\<close>.\<close>

definition WorkflowSettings_checks :: "'w env \<Rightarrow> settings \<Rightarrow> error + settings" where
  "WorkflowSettings_checks env s =
     andThen (check_tool_requirements env (to_run s) ''running'' s) (\<lambda>s1.
     andThen (check_tool_requirements env (to_integrate s1) ''integration'' s1) (\<lambda>s2.
     andThen (check_tool_requirements env [''all_tools''] ''running'' s2) (\<lambda>s3.
       check_tool_requirements env [''all_tools''] ''integration'' s3)))"

definition WorkflowSettings_init ::
  "'w env \<Rightarrow> pyval \<Rightarrow> string list \<Rightarrow> string list \<Rightarrow> 'w \<Rightarrow> error + settings \<times> 'w" where
  "WorkflowSettings_init env settings_json available_tools available_integrations w =
     andThen (WorkflowSettings_setup env settings_json available_tools available_integrations w) (\<lambda>sw.
       andThen (WorkflowSettings_checks env (fst sw)) (\<lambda>s. Inr (s, snd sw)))"

section \<open>Consensus fields\<close>

text \<open>\<^verbatim>\<open>row.get(k)\<close> is \<^verbatim>\<open>None\<close> for a column the row does not have, \<^verbatim>\<open>row[k]\<close> raises
  \<^verbatim>\<open>KeyError\<close>, and \<^verbatim>\<open>row[k] = v\<close> changes the row handed to the function. The three
  functions below are given for a row that takes the assignment; whether pandas
  refuses it, and whether it reaches the frame, is part of \<open>assign_apply\<close>.\<close>

definition row_get :: "row \<Rightarrow> string \<Rightarrow> pyval" where
  "row_get r k = (case map_of r k of None \<Rightarrow> PNone | Some v \<Rightarrow> v)"

definition row_index :: "row \<Rightarrow> string \<Rightarrow> error + pyval" where
  "row_index r k = (case map_of r k of None \<Rightarrow> Inl (KeyError k) | Some v \<Rightarrow> Inr v)"

text \<open>\<^verbatim>\<open>if not row.get(k): row[k] = "N/A"\<close>\<close>

definition default_na :: "string \<Rightarrow> row \<Rightarrow> row" where
  "default_na k r = (if \<not> truthy (row_get r k) then AList.update k (PStr ''N/A'') r else r)"

definition get_consensus_formula :: "row \<Rightarrow> error + pyval" where
  "get_consensus_formula r =
     (let r1 = default_na ''sirius:molecularFormula'' r in
      if truthy (row_get r1 ''sirius_db:molecularFormula'') then
        andThen (row_index r1 ''sirius_db:molecularFormula'') (\<lambda>v.
          if isinstance_str v then row_index r1 ''sirius_db:molecularFormula''
          else row_index r1 ''sirius:molecularFormula'')
      else row_index r1 ''sirius:molecularFormula'')"

definition get_consensus_smiles :: "row \<Rightarrow> error + pyval" where
  "get_consensus_smiles r =
     (let r1 = default_na ''csifingerid:smiles'' r in
      if truthy (row_get r1 ''CF'') then
        andThen (row_index r1 ''csifingerid_db:smiles'') (\<lambda>v.
          if isinstance_str v then row_index r1 ''csifingerid_db:smiles''
          else row_index r1 ''csifingerid:smiles'')
      else row_index r1 ''csifingerid:smiles'')"

definition get_consensus_class :: "row \<Rightarrow> string \<Rightarrow> error + pyval" where
  "get_consensus_class r classtype =
     (let r1 = default_na (''canopus:CF_'' @ classtype) r in
      andThen (row_index r1 (''CF:'' @ classtype)) (\<lambda>v.
        if \<not> py_eq v (PStr ''N/A'') then row_index r1 (''CF:'' @ classtype)
        else row_index r1 (''canopus:CF_'' @ classtype)))"

text \<open>
  The consensus rule in the words of the spec (section 4.4): prefer the secondary
  value when it is present and a proper string, otherwise fall back to the primary
  value, an absent primary being the literal \<^verbatim>\<open>"N/A"\<close>. A value is absent when it
  is \<^verbatim>\<open>None\<close>, the missing cell \<^verbatim>\<open>nan\<close> or the empty text.
\<close>

definition absent :: "pyval \<Rightarrow> bool" where
  "absent v = (v = PNone \<or> v = PNaN \<or> v = PStr [])"

definition spec_consensus :: "pyval \<Rightarrow> pyval \<Rightarrow> pyval" where
  "spec_consensus primary secondary =
     (if \<not> absent secondary \<and> isinstance_str secondary then secondary
      else if absent primary then PStr ''N/A'' else primary)"

section \<open>Data frame operations\<close>

fun collect :: "('a \<Rightarrow> error + 'b) \<Rightarrow> 'a list \<Rightarrow> error + 'b list" where
  "collect f [] = Inr []"
| "collect f (x # xs) = andThen (f x) (\<lambda>y. andThen (collect f xs) (\<lambda>ys. Inr (y # ys)))"

text \<open>\<^verbatim>\<open>df[c] = values\<close>: an existing column is overwritten, a new one is appended.\<close>

definition df_set_column :: "string \<Rightarrow> pyval list \<Rightarrow> dataframe \<Rightarrow> dataframe" where
  "df_set_column c vs df =
     \<lparr>columns = (if c \<in> set (columns df) then columns df else columns df @ [c]),
      rows = map (\<lambda>(ir, v). (fst ir, AList.update c v (snd ir))) (zip (rows df) vs)\<rparr>"

text \<open>The cells of a column, row by row (\<^verbatim>\<open>None\<close> where a row lacks it).\<close>

definition column_values :: "string \<Rightarrow> (pyval \<times> row) list \<Rightarrow> pyval list" where
  "column_values c rs = map (\<lambda>ir. row_get (snd ir) c) rs"

text \<open>The column pandas builds from a list of values: a text is stored as it is,
  any other value as the dtype inference has it.\<close>

definition stored_cell :: "'w env \<Rightarrow> pyval list \<Rightarrow> pyval \<Rightarrow> pyval" where
  "stored_cell env vs v = (if isinstance_str v then v else column_cell env vs v)"

definition to_column :: "'w env \<Rightarrow> pyval list \<Rightarrow> pyval list" where
  "to_column env vs = map (stored_cell env vs) vs"

text \<open>
  \<^verbatim>\<open>self.network_df[c] = self.network_df.apply(f, axis=1)\<close> for one of the three
  consensus functions \<open>f\<close>; \<open>k\<close> is the column that \<open>f\<close> defaults in its first
  statement (\<^verbatim>\<open>if not row.get(k): row[k] = "N/A"\<close>). pandas hands every row to \<open>f\<close>,
  one after the other; an exception of \<open>f\<close> ends the statement. The call on a row
  that \<open>f\<close> defaults raises \<^verbatim>\<open>TypeError\<close> when the row refuses the text. The new
  column is built from the values returned, and an existing column of that name is
  overwritten. An attribute that is not a data frame has no such method (the class
  \<^verbatim>\<open>pd.DataFrame\<close> itself, the initial value, raises \<^verbatim>\<open>TypeError\<close>).
\<close>

definition apply_row :: "'w env \<Rightarrow> dataframe \<Rightarrow> string \<Rightarrow> (row \<Rightarrow> error + pyval) \<Rightarrow> row \<Rightarrow> error + pyval" where
  "apply_row env df k f r =
     (if \<not> truthy (row_get r k) \<and> setitem_refused env df r k then Inl TypeError else f r)"

definition written_through :: "'w env \<Rightarrow> string \<Rightarrow> dataframe \<Rightarrow> dataframe" where
  "written_through env k df =
     (if writes_through env df
      then df\<lparr>rows := map (\<lambda>ir. (fst ir, if k \<in> fst ` set (snd ir) then default_na k (snd ir) else snd ir))
                          (rows df)\<rparr>
      else df)"

fun assign_apply :: "'w env \<Rightarrow> string \<Rightarrow> string \<Rightarrow> (row \<Rightarrow> error + pyval) \<Rightarrow> obj \<Rightarrow> error + obj" where
  "assign_apply env c k f (Df df) =
     (if rows df = [] \<or> columns df = [] then andThen (apply_empty env c df) (\<lambda>df'. Inr (Df df'))
      else andThen (collect (apply_row env df k f) (map snd (rows df))) (\<lambda>vs.
             Inr (Df (df_set_column c (to_column env vs) (written_through env k df)))))"
| "assign_apply env c k f (PyClass n) = Inl TypeError"
| "assign_apply env c k f _ = Inl AttributeError"

fun notna :: "pyval \<Rightarrow> bool" where
  "notna PNone = False"
| "notna PNaN = False"
| "notna _ = True"

section \<open>Graph construction\<close>

text \<open>\<^verbatim>\<open>nx.from_pandas_edgelist(df, edge_attr=True)\<close> as networkx has it: every row
  is an edge from column \<^verbatim>\<open>source\<close> to column \<^verbatim>\<open>target\<close>, the other columns are its
  attributes, and the end points become nodes without attributes. An edge list
  with no other column raises \<^verbatim>\<open>NetworkXError\<close>, before the two columns are looked
  up; \<^verbatim>\<open>None\<close> is refused as a node (\<^verbatim>\<open>ValueError\<close>), and so is a list or dictionary
  (not hashable, \<^verbatim>\<open>TypeError\<close>). Nodes are compared as HOL values (GraphML node ids
  are strings); two \<^verbatim>\<open>nan\<close> are one node here, where Python tells two float objects
  apart.\<close>

definition merge_attrs :: "row \<Rightarrow> row \<Rightarrow> row" where
  "merge_attrs new old = fold (\<lambda>kv. AList.update (fst kv) (snd kv)) new old"

definition add_node :: "pyval \<Rightarrow> nx_graph \<Rightarrow> nx_graph" where
  "add_node n g = (if n \<in> fst ` set (nodes g) then g else g\<lparr>nodes := nodes g @ [(n, [])]\<rparr>)"

definition add_edge :: "pyval \<Rightarrow> pyval \<Rightarrow> row \<Rightarrow> nx_graph \<Rightarrow> nx_graph" where
  "add_edge u v attrs g =
     (let g1 = add_node v (add_node u g) in
      if (u, v) \<in> fst ` set (edges g1) \<or> (v, u) \<in> fst ` set (edges g1) then
        g1\<lparr>edges := map (\<lambda>ea. if fst ea = (u, v) \<or> fst ea = (v, u)
                                then (fst ea, merge_attrs attrs (snd ea)) else ea) (edges g1)\<rparr>
      else g1\<lparr>edges := edges g1 @ [((u, v), attrs)]\<rparr>)"

definition edge_attrs :: "row \<Rightarrow> row" where
  "edge_attrs r = filter (\<lambda>kv. fst kv \<noteq> ''source'' \<and> fst kv \<noteq> ''target'') r"

fun hashable :: "pyval \<Rightarrow> bool" where
  "hashable (PList xs) = False"
| "hashable (PDict d) = False"
| "hashable _ = True"

text \<open>\<^verbatim>\<open>g.add_edge(s, t); g[s][t].update(zip(attr_col_headings, attrs))\<close>\<close>

definition add_edge_row :: "pyval \<times> row \<Rightarrow> nx_graph \<Rightarrow> error + nx_graph" where
  "add_edge_row ir g =
     (let s = row_get (snd ir) ''source''; t = row_get (snd ir) ''target'' in
      if \<not> hashable s then Inl TypeError
      else if s = PNone then Inl ValueError
      else if \<not> hashable t then Inl TypeError
      else if t = PNone then Inl ValueError
      else Inr (add_edge s t (edge_attrs (snd ir)) g))"

text \<open>The placeholder \<^verbatim>\<open>nx.edgelist\<close> of the constructor is a module: it has no
  attribute \<^verbatim>\<open>columns\<close>.\<close>

fun from_pandas_edgelist :: "obj \<Rightarrow> error + nx_graph" where
  "from_pandas_edgelist (Df el) =
     (if filter (\<lambda>c. c \<noteq> ''source'' \<and> c \<noteq> ''target'') (columns el) = [] then Inl NetworkXError
      else if ''source'' \<notin> set (columns el) then Inl (KeyError ''source'')
      else if ''target'' \<notin> set (columns el) then Inl (KeyError ''target'')
      else for_each add_edge_row (rows el) \<lparr>nodes = [], edges = []\<rparr>)"
| "from_pandas_edgelist _ = Inl AttributeError"

text \<open>\<^verbatim>\<open>integrated_network.nodes[node_ID][attribute] = value\<close> for every attribute.\<close>

definition set_node_attrs :: "pyval \<Rightarrow> row \<Rightarrow> nx_graph \<Rightarrow> nx_graph" where
  "set_node_attrs n attrs g =
     g\<lparr>nodes := map (\<lambda>na. if fst na = n then (fst na, merge_attrs attrs (snd na)) else na) (nodes g)\<rparr>"

text \<open>
  Modelled from the spec: \<^verbatim>\<open>convert_missing\<close> of \<^verbatim>\<open>src/myworkflow/util.py\<close> is
  missing. The spec says that missing-value sentinels are normalised to the single
  canonical token \<^verbatim>\<open>"N/A"\<close>: a cell that is still missing, and a text that is one of
  the raw markers; \<open>markers\<close> is the list of the raw markers it knows (the texts of
  the missing values after \<^verbatim>\<open>astype(str)\<close>). Any other cell is left as it is.
\<close>

definition convert_missing_spec :: "string list \<Rightarrow> pyval \<Rightarrow> pyval" where
  "convert_missing_spec markers v =
     (case v of
        PStr s \<Rightarrow> PStr (if s \<in> set markers then ''N/A'' else s)
      | PNone \<Rightarrow> PStr ''N/A''
      | PNaN \<Rightarrow> PStr ''N/A''
      | _ \<Rightarrow> v)"

text \<open>
  Modelled from the spec: \<^verbatim>\<open>filter_component\<close> of \<^verbatim>\<open>src/myworkflow\<close> is missing. The
  spec's topology filter (section 4.4) removes every connected component that has
  more nodes than the threshold, with its edges. The component of a node is found
  by following the edges as often as the graph has nodes.
\<close>

definition neighbours :: "nx_graph \<Rightarrow> pyval \<Rightarrow> pyval list" where
  "neighbours g n =
     concat (map (\<lambda>e. (if fst (fst e) = n then [snd (fst e)] else []) @
                      (if snd (fst e) = n then [fst (fst e)] else [])) (edges g))"

fun reachable :: "nat \<Rightarrow> nx_graph \<Rightarrow> pyval list \<Rightarrow> pyval list" where
  "reachable 0 g ns = ns"
| "reachable (Suc k) g ns = reachable k g (remdups (ns @ concat (map (neighbours g) ns)))"

definition component :: "nx_graph \<Rightarrow> pyval \<Rightarrow> pyval list" where
  "component g n = reachable (length (nodes g)) g [n]"

definition filter_component_spec :: "nx_graph \<Rightarrow> int \<Rightarrow> error + nx_graph" where
  "filter_component_spec g threshold =
     Inr \<lparr>nodes = filter (\<lambda>na. int (length (component g (fst na))) \<le> threshold) (nodes g),
          edges = filter (\<lambda>e. int (length (component g (fst (fst e)))) \<le> threshold \<and>
                              int (length (component g (snd (fst e)))) \<le> threshold) (edges g)\<rparr>"

section \<open>WorkflowRunner\<close>

definition available_tools :: "string list" where
  "available_tools = [''mzmine'', ''ms2lda'', ''sirius'', ''toxtree'', ''classyfire'', ''matchms'']"

definition available_integrations :: "string list" where
  "available_integrations =
     [''mzmine'', ''ms2lda'', ''sirius'', ''toxtree'', ''classyfire'', ''matchms'', ''plastchemdb'', ''sirius_db'']"

text \<open>The attributes of a \<^verbatim>\<open>WorkflowRunner\<close>; \<^verbatim>\<open>integration_col\<close> and \<^verbatim>\<open>data\<close> do
  not exist before their first assignment. \<open>world\<close> is the file system the tools
  read and write.\<close>

record 'w runner =
  settings :: settings
  runner_name :: pyval
  runner_output_folder :: string
  graph :: obj
  network_df :: obj
  network_edgelist :: obj
  integration_col :: "pyval option"
  runner_data :: "obj option"
  world :: 'w

definition WorkflowRunner_init :: "'w env \<Rightarrow> pyval \<Rightarrow> 'w \<Rightarrow> error + 'w runner" where
  "WorkflowRunner_init env settings_json w =
     andThen (WorkflowSettings_init env settings_json available_tools available_integrations w) (\<lambda>sw.
       Inr \<lparr>settings = fst sw, runner_name = name (fst sw),
            runner_output_folder = output_folder (fst sw),
            graph = PyClass ''nx.Graph'', network_df = PyClass ''pd.DataFrame'',
            network_edgelist = PyClass ''nx.edgelist'', integration_col = None,
            runner_data = None, world = snd sw\<rparr>)"

subsection \<open>Depth resolution\<close>

text \<open>The loop body of \<^verbatim>\<open>get_depths\<close>, in its two halves. First the depth the
  configuration gives: \<^verbatim>\<open>goal_depth if goal_depth else config.get("depth","N/A")\<close>.\<close>

definition configured_depth :: "settings \<Rightarrow> string \<Rightarrow> string \<Rightarrow> error + pyval" where
  "configured_depth s goal tool =
     andThen (py_get (config s) tool (PDict [])) (\<lambda>cfg.
     andThen (py_get cfg goal (PDict [])) (\<lambda>goal_cfg.
     andThen (py_get goal_cfg ''depth'' PNone) (\<lambda>goal_depth.
       if truthy goal_depth then Inr goal_depth else py_get cfg ''depth'' (PStr ''N/A''))))"

text \<open>Then the \<^verbatim>\<open>match\<close> on it. It has no default case: a depth that is none of
  the literals assigns nothing.\<close>

definition match_depth :: "pyval \<Rightarrow> pyval option" where
  "match_depth depth =
     (if eq_str depth ''1'' \<or> eq_int depth 1 then Some (PInt 1)
      else if eq_str depth ''2'' \<or> eq_int depth 2 then Some (PInt 2)
      else if eq_str depth ''3'' \<or> eq_int depth 3 then Some (PInt 3)
      else if eq_str depth ''4'' \<or> eq_int depth 4 then Some (PInt 4)
      else if eq_str depth ''N/A'' then Some (PStr ''N/A'')
      else None)"

definition get_depths_step :: "settings \<Rightarrow> string \<Rightarrow> string \<Rightarrow> (string \<times> pyval) list \<Rightarrow> error + (string \<times> pyval) list" where
  "get_depths_step s goal tool depths =
     andThen (configured_depth s goal tool) (\<lambda>depth.
       Inr (case match_depth depth of
              Some d \<Rightarrow> AList.update tool d depths
            | None \<Rightarrow> depths))"

definition get_depths :: "settings \<Rightarrow> string list \<Rightarrow> string \<Rightarrow> error + (string \<times> pyval) list" where
  "get_depths s tools goal = for_each (get_depths_step s goal) tools []"

subsection \<open>Tool dispatch\<close>

definition path :: "'w runner \<Rightarrow> string \<Rightarrow> error + pyval" where
  "path r k = py_get (paths (settings r)) k PNone"

text \<open>A call of a collaborator: the result and the new world.\<close>

definition call :: "'w env \<Rightarrow> string \<Rightarrow> obj list \<Rightarrow> 'w runner \<Rightarrow> (obj \<Rightarrow> 'w runner \<Rightarrow> error + 'a) \<Rightarrow> error + 'a" where
  "call env f args r k =
     andThen (external env f args (world r)) (\<lambda>res. k (fst res) (r\<lparr>world := snd res\<rparr>))"

text \<open>\<^verbatim>\<open>x in c\<close>: a key of a dictionary (a list or dictionary is not hashable), a
  member of a list, a substring of a string.\<close>

fun py_in :: "pyval \<Rightarrow> pyval \<Rightarrow> error + bool" where
  "py_in (PList x) (PDict d) = Inl TypeError"
| "py_in (PDict x) (PDict d) = Inl TypeError"
| "py_in (PStr k) (PDict d) = Inr (k \<in> fst ` set d)"
| "py_in x (PDict d) = Inr False"
| "py_in x (PList xs) = Inr (list_ex (py_eq x) xs)"
| "py_in (PStr t) (PStr s) = Inr (sublist t s)"
| "py_in x c = Inl TypeError"

text \<open>\<^verbatim>\<open>d.get(k)\<close> for a key that is any value, and \<^verbatim>\<open>d.get(k, default)\<close> for a
  default that is any object.\<close>

fun py_get_val :: "pyval \<Rightarrow> pyval \<Rightarrow> error + pyval" where
  "py_get_val (PDict d) (PStr k) = py_get (PDict d) k PNone"
| "py_get_val (PDict d) (PList x) = Inl TypeError"
| "py_get_val (PDict d) (PDict x) = Inl TypeError"
| "py_get_val (PDict d) k = Inr PNone"
| "py_get_val c k = Inl AttributeError"

fun get_or :: "pyval \<Rightarrow> string \<Rightarrow> obj \<Rightarrow> error + obj" where
  "get_or (PDict d) k dflt = Inr (case map_of d k of None \<Rightarrow> dflt | Some v \<Rightarrow> Val v)"
| "get_or _ k dflt = Inl AttributeError"

fun create_smiles_csv_from_df :: "'w env \<Rightarrow> bool \<Rightarrow> string \<Rightarrow> 'w runner \<Rightarrow> error + string \<times> 'w runner" where
  "create_smiles_csv_from_df env header output_name r =
     (case network_df r of
        Df df \<Rightarrow>
          if ''smiles'' \<notin> set (columns df) then Inl (KeyError ''smiles'')
          else call env ''DataFrame.to_csv''
                 [Df (df\<lparr>rows := filter (\<lambda>ir. notna (row_get (snd ir) ''smiles'')) (rows df)\<rparr>),
                  Val (PStr output_name), Val (PList [PStr ''smiles'']), Val (PBool header),
                  Val (PBool False), Val (PStr ''N/A'')] r
                 (\<lambda>_ r'. Inr (output_name, r'))
      | _ \<Rightarrow> Inl TypeError)"

definition get_ms2lda_params :: "settings \<Rightarrow> error + pyval" where
  "get_ms2lda_params s =
     (case ms2lda s of None \<Rightarrow> Inl AttributeError | Some m \<Rightarrow>
        andThen (py_index m ''preprocessing_parameters'') (\<lambda>preprocessing_parameters.
        andThen (py_index m ''convergence_parameters'') (\<lambda>convergence_parameters.
        andThen (py_index m ''annotation_parameters'') (\<lambda>annotation_parameters.
        andThen (py_index m ''model_parameters'') (\<lambda>model_parameters.
        andThen (py_index m ''train_parameters'') (\<lambda>train_parameters.
        andThen (py_index m ''fingerprint_parameters'') (\<lambda>fingerprint_parameters.
        andThen (py_index m ''dataset_parameters'') (\<lambda>dataset_parameters.
        andThen (py_index m ''n_motifs'') (\<lambda>n_motifs.
        andThen (py_index m ''n_iterations'') (\<lambda>n_iterations.
        andThen (py_index m ''motif_parameter'') (\<lambda>motif_parameter.
          Inr (PList [preprocessing_parameters, convergence_parameters, annotation_parameters,
                      model_parameters, train_parameters, fingerprint_parameters,
                      dataset_parameters, n_iterations, n_motifs, motif_parameter]))))))))))))"

text \<open>The attribute \<^verbatim>\<open>self.settings.sirius\<close> (or \<^verbatim>\<open>toxtree\<close>), then \<^verbatim>\<open>.get(k)\<close> on it.\<close>

definition attr_get :: "pyval option \<Rightarrow> string \<Rightarrow> error + pyval" where
  "attr_get a k = (case a of None \<Rightarrow> Inl AttributeError | Some d \<Rightarrow> py_get d k PNone)"

definition run_classyfire_case :: "'w env \<Rightarrow> 'w runner \<Rightarrow> error + 'w runner" where
  "run_classyfire_case env r =
     andThen (create_smiles_csv_from_df env False (runner_output_folder r @ ''/classyfire_input.csv'') r) (\<lambda>cr.
     andThen (path (snd cr) ''classyfire_output'') (\<lambda>output_path.
       call env ''run_classyfire'' [Val (PStr (fst cr)), Val output_path] (snd cr) (\<lambda>_ r'. Inr r')))"

definition run_matchms_case :: "'w env \<Rightarrow> 'w runner \<Rightarrow> error + 'w runner" where
  "run_matchms_case env r =
     andThen (path r ''input_mgf'') (\<lambda>input_mgf.
       call env ''create_network_from_mgf'' [Val input_mgf] r (\<lambda>g r1.
         andThen (path r1 ''base_network'') (\<lambda>output_path.
           call env ''export_to_graphml'' [g, Val output_path] r1 (\<lambda>_ r'. Inr r'))))"

definition run_ms2lda_case :: "'w env \<Rightarrow> 'w runner \<Rightarrow> error + 'w runner" where
  "run_ms2lda_case env r =
     andThen (path r ''ms2lda_output'') (\<lambda>output_path.
       case ms2lda (settings r) of None \<Rightarrow> Inl AttributeError | Some m \<Rightarrow>
         andThen (py_index m ''dataset_parameters'') (\<lambda>dp.
         andThen (py_setitem dp ''output_folder'' output_path) (\<lambda>dp'.
         andThen (py_setitem m ''dataset_parameters'' dp') (\<lambda>m'.
           (let r1 = r\<lparr>settings := (settings r)\<lparr>ms2lda := Some m'\<rparr>\<rparr> in
            andThen (get_ms2lda_params (settings r1)) (\<lambda>ms2lda_params.
            andThen (path r1 ''input_mgf'') (\<lambda>input_mgf.
              call env ''run_ms2lda'' [Val input_mgf, Val ms2lda_params] r1 (\<lambda>_ r'. Inr r'))))))))"

definition run_mzmine_case :: "'w env \<Rightarrow> 'w runner \<Rightarrow> error + 'w runner" where
  "run_mzmine_case env r =
     andThen (path r ''mzmine_location'') (\<lambda>mzmine_location.
     andThen (path r ''mzmine_userfile_location'') (\<lambda>mzmine_userfile_location.
     andThen (path r ''mzmine_base_batchfile'') (\<lambda>base_batchfile.
     andThen (path r ''data_folder'') (\<lambda>data_folder.
       call env ''get_filelist_from_folder'' [Val data_folder] r (\<lambda>filelist r1.
         andThen (get_or (paths (settings r1)) ''file_list'' filelist) (\<lambda>d.
           case mzmine (settings r1) of None \<Rightarrow> Inl AttributeError | Some mz \<Rightarrow>
             call env ''mzbatch_writer'' [Val base_batchfile, d, Val mz] (r1\<lparr>runner_data := Some d\<rparr>)
               (\<lambda>batchfile_writer r2.
                 call env ''write_mzbatch''
                   [batchfile_writer, Val (PStr (runner_output_folder r @ ''/mzmine_mzbatch.mzbatch''))] r2
                   (\<lambda>batchfile r3.
                     call env ''run_mzmine''
                       [batchfile, Val (PStr (runner_output_folder r @ ''/mzmine'')),
                        Val mzmine_location, Val mzmine_userfile_location,
                        Val (PStr (runner_output_folder r @ ''/mzmine/temp/''))] r3
                       (\<lambda>_ r'. Inr r')))))))))"

definition run_sirius_case :: "'w env \<Rightarrow> 'w runner \<Rightarrow> error + 'w runner" where
  "run_sirius_case env r =
     andThen (path r ''sirius_output'') (\<lambda>output_loc.
     andThen (path r ''sirius_path'') (\<lambda>sirius_path.
     andThen (path r ''input_mgf'') (\<lambda>input_mgf.
     andThen (attr_get (sirius (settings r)) ''instrument'') (\<lambda>instrument.
     andThen (attr_get (sirius (settings r)) ''formula_db'') (\<lambda>formula_db.
       call env ''run_sirius''
         [Val input_mgf, Val output_loc, Val sirius_path, Val formula_db, Val instrument] r
         (\<lambda>_ r'. Inr r'))))))"

definition run_toxtree_case :: "'w env \<Rightarrow> 'w runner \<Rightarrow> error + 'w runner" where
  "run_toxtree_case env r =
     andThen (path r ''toxtree_path'') (\<lambda>toxtree_loc.
     andThen (attr_get (toxtree (settings r)) ''module'') (\<lambda>toxtree_module.
     andThen (py_get (config (settings r)) ''toxtree'' (PDict [])) (\<lambda>c1.
     andThen (py_get c1 ''running'' (PDict [])) (\<lambda>c2.
     andThen (py_get c2 ''translations'' (PDict [])) (\<lambda>cfg.
     andThen (py_get cfg ''modules'' (PDict [])) (\<lambda>modules.
     andThen (py_in toxtree_module modules) (\<lambda>supported.
       if \<not> supported then Inl (Settingserror (ToxtreeModule toxtree_module))
       else
         andThen (py_get cfg ''modules'' (PDict [])) (\<lambda>modules2.
         andThen (py_get_val modules2 toxtree_module) (\<lambda>module_path.
         andThen (create_smiles_csv_from_df env True (runner_output_folder r @ ''/toxtree_input.csv'') r) (\<lambda>cr.
           call env ''run_toxtree''
             [Val (PStr (fst cr)), Val (PStr (runner_output_folder r @ ''/toxtree_results.csv'')),
              Val toxtree_loc, Val module_path] (snd cr)
             (\<lambda>_ r'. Inr r')))))))))))"

text \<open>\<^verbatim>\<open>run_tool\<close>: the \<^verbatim>\<open>match\<close> on the tool's name, in the order of the source. There
  is no default case.\<close>

definition run_tool :: "'w env \<Rightarrow> string \<Rightarrow> 'w runner \<Rightarrow> error + 'w runner" where
  "run_tool env tool r =
     (if tool = ''classyfire'' then run_classyfire_case env r
      else if tool = ''matchms'' then run_matchms_case env r
      else if tool = ''ms2lda'' then run_ms2lda_case env r
      else if tool = ''mzmine'' then run_mzmine_case env r
      else if tool = ''sirius'' then run_sirius_case env r
      else if tool = ''toxtree'' then run_toxtree_case env r
      else Inr r)"

text \<open>The attribute \<^verbatim>\<open>self.integration_col\<close>, which exists from depth 4 on.\<close>

definition get_integration_col :: "'w runner \<Rightarrow> error + pyval" where
  "get_integration_col r = (case integration_col r of None \<Rightarrow> Inl AttributeError | Some c \<Rightarrow> Inr c)"

text \<open>The three integrations that parse a table and merge it on the join column:
  \<^verbatim>\<open>get_merging_settings(config, self.integration_col)\<close>, then
  \<^verbatim>\<open>integrate_df_cols_to_df(self.network_df, table, *integration_settings)\<close>.\<close>

definition merge_table :: "'w env \<Rightarrow> string \<Rightarrow> obj \<Rightarrow> 'w runner \<Rightarrow> error + 'w runner" where
  "merge_table env tool table r =
     andThen (py_get (config (settings r)) tool (PDict [])) (\<lambda>c1.
     andThen (py_get c1 ''integration'' (PDict [])) (\<lambda>cfg.
     andThen (get_integration_col r) (\<lambda>col.
       call env ''get_merging_settings'' [Val cfg, Val col] r (\<lambda>integration_settings r1.
         call env ''integrate_df_cols_to_df'' [network_df r1, table, integration_settings] r1
           (\<lambda>df r'. Inr (r'\<lparr>network_df := df\<rparr>))))))"

definition integrate_classyfire_case :: "'w env \<Rightarrow> 'w runner \<Rightarrow> error + 'w runner" where
  "integrate_classyfire_case env r =
     andThen (path r ''classyfire_output'') (\<lambda>output_folder.
       call env ''parse_classyfire_sdf'' [Val output_folder] r (\<lambda>classyfire_records r1.
         merge_table env ''classyfire'' classyfire_records r1))"

definition integrate_ms2lda_case :: "'w env \<Rightarrow> 'w runner \<Rightarrow> error + 'w runner" where
  "integrate_ms2lda_case env r =
     andThen (path r ''ms2lda_output'') (\<lambda>output_folder.
     andThen (path r ''input_mgf'') (\<lambda>dataset.
     andThen (path r ''ms2lda_results_db'') (\<lambda>output_database.
       call env ''integrate_ms2lda_to_df''
         [network_df r, Val dataset, Val output_folder, Val output_database] r
         (\<lambda>df r'. Inr (r'\<lparr>network_df := df\<rparr>)))))"

definition integrate_mzmine_case :: "'w env \<Rightarrow> 'w runner \<Rightarrow> error + 'w runner" where
  "integrate_mzmine_case env r =
     andThen (path r ''sirius_mgf'') (\<lambda>input_mgf.
     andThen (path r ''quant_table'') (\<lambda>quant_table.
     andThen (path r ''metadata_csv'') (\<lambda>metadata_csv.
       call env ''temp_metadata_adder''
         [network_df r, Val input_mgf, Val metadata_csv, Val quant_table] r
         (\<lambda>df r'. Inr (r'\<lparr>network_df := df\<rparr>)))))"

text \<open>The cases \<^verbatim>\<open>sirius\<close> and \<^verbatim>\<open>sirius_db\<close> differ in the tool's name and in the
  three output paths.\<close>

definition integrate_sirius_case :: "'w env \<Rightarrow> string \<Rightarrow> string list \<Rightarrow> 'w runner \<Rightarrow> error + 'w runner" where
  "integrate_sirius_case env tool outs r =
     andThen (py_get (config (settings r)) tool (PDict [])) (\<lambda>c1.
     andThen (py_get c1 ''integration'' (PDict [])) (\<lambda>c2.
     andThen (py_get c2 ''translations'' (PDict [])) (\<lambda>cfg.
     andThen (collect (\<lambda>k. py_get cfg k (PDict [])) [''sirius'', ''csi:fingerid'', ''canopus'']) (\<lambda>translators.
     andThen (collect (path r) outs) (\<lambda>outputs.
       call env ''integrate_sirius_to_graph'' [graph r, Val (PList translators), Val (PList outputs)] r
         (\<lambda>g r'. Inr (r'\<lparr>graph := g\<rparr>)))))))"

definition integrate_toxtree_case :: "'w env \<Rightarrow> 'w runner \<Rightarrow> error + 'w runner" where
  "integrate_toxtree_case env r =
     andThen (path r ''toxtree_output'') (\<lambda>toxtree_output.
       call env ''parse_cramer_classifications'' [Val toxtree_output] r (\<lambda>toxtree_df r1.
         merge_table env ''toxtree'' toxtree_df r1))"

text \<open>In the case \<^verbatim>\<open>plastchemdb\<close> the configuration is read before the table.\<close>

definition integrate_plastchemdb_case :: "'w env \<Rightarrow> 'w runner \<Rightarrow> error + 'w runner" where
  "integrate_plastchemdb_case env r =
     andThen (py_get (config (settings r)) ''plastchemdb'' (PDict [])) (\<lambda>c1.
     andThen (py_get c1 ''integration'' (PDict [])) (\<lambda>_.
     andThen (path r ''plastchem_path'') (\<lambda>plastchem_db.
       call env ''pd.read_csv'' [Val plastchem_db] r (\<lambda>plastchem_df r1.
         merge_table env ''plastchemdb'' plastchem_df r1))))"

text \<open>\<^verbatim>\<open>integrate_tool\<close>: the \<^verbatim>\<open>match\<close> on the tool's name, in the order of the
  source. There is no default case, and no case for \<^verbatim>\<open>matchms\<close>.\<close>

definition integrate_tool :: "'w env \<Rightarrow> string \<Rightarrow> 'w runner \<Rightarrow> error + 'w runner" where
  "integrate_tool env tool r =
     (if tool = ''classyfire'' then integrate_classyfire_case env r
      else if tool = ''ms2lda'' then integrate_ms2lda_case env r
      else if tool = ''mzmine'' then integrate_mzmine_case env r
      else if tool = ''sirius'' then
        integrate_sirius_case env ''sirius'' [''sirius_tool_output'', ''csi:fingerid_output'', ''canopus_output''] r
      else if tool = ''sirius_db'' then
        integrate_sirius_case env ''sirius_db''
          [''sirius_tool_db_output'', ''csi:fingerid_db_output'', ''canopus_db_output''] r
      else if tool = ''toxtree'' then integrate_toxtree_case env r
      else if tool = ''plastchemdb'' then integrate_plastchemdb_case env r
      else Inr r)"

subsection \<open>The output graph\<close>

text \<open>\<^verbatim>\<open>integrated_df.astype(str).map(convert_missing)\<close>. \<^verbatim>\<open>astype(str)\<close> makes the
  text of every cell, or leaves a missing cell missing; \<^verbatim>\<open>map\<close> calls
  \<^verbatim>\<open>convert_missing\<close> on every cell and builds each column anew from the results.\<close>

definition astype_str :: "'w env \<Rightarrow> pyval \<Rightarrow> pyval" where
  "astype_str env v =
     (if str_keeps_missing env \<and> (v = PNone \<or> v = PNaN) then PNaN
      else PStr (py_str (repr_other env) v))"

definition clean_cell :: "'w env \<Rightarrow> pyval \<Rightarrow> pyval" where
  "clean_cell env v = convert_missing env (astype_str env v)"

definition clean_row :: "'w env \<Rightarrow> row \<Rightarrow> row" where
  "clean_row env r = map (\<lambda>kv. (fst kv, clean_cell env (snd kv))) r"

definition clean_rows :: "'w env \<Rightarrow> (pyval \<times> row) list \<Rightarrow> (pyval \<times> row) list" where
  "clean_rows env rs =
     (let cleaned = map (\<lambda>ir. (fst ir, clean_row env (snd ir))) rs in
      map (\<lambda>ir. (fst ir, map (\<lambda>kv. (fst kv, stored_cell env (column_values (fst kv) cleaned) (snd kv)))
                              (snd ir)))
          cleaned)"

text \<open>\<^verbatim>\<open>to_dict(orient='index')\<close> raises \<^verbatim>\<open>ValueError\<close> when the index is not unique.\<close>

fun nodes_dict_of :: "'w env \<Rightarrow> obj \<Rightarrow> error + (pyval \<times> row) list" where
  "nodes_dict_of env (Df df) =
     (if distinct (map fst (rows df)) then Inr (clean_rows env (rows df)) else Inl ValueError)"
| "nodes_dict_of env (PyClass n) = Inl TypeError"
| "nodes_dict_of env _ = Inl AttributeError"

text \<open>The loop over \<^verbatim>\<open>nodes_dict\<close>: a node the edges did not bring is added, then
  its attributes are set.\<close>

definition overlay_node :: "pyval \<times> row \<Rightarrow> nx_graph \<Rightarrow> nx_graph" where
  "overlay_node na g = set_node_attrs (fst na) (snd na) (add_node (fst na) g)"

text \<open>The graph that \<^verbatim>\<open>produce_integrated_graphml\<close> hands to \<^verbatim>\<open>filter_component\<close>.\<close>

definition integrated_network :: "'w env \<Rightarrow> 'w runner \<Rightarrow> error + nx_graph" where
  "integrated_network env r =
     andThen (from_pandas_edgelist (network_edgelist r)) (\<lambda>g.
     andThen (nodes_dict_of env (network_df r)) (\<lambda>nodes_dict.
       Inr (fold overlay_node nodes_dict g)))"

text \<open>The graph that is written to \<^verbatim>\<open>{output_folder}/{name}.graphml\<close>.\<close>

definition serialized_graph :: "'w env \<Rightarrow> 'w runner \<Rightarrow> error + nx_graph" where
  "serialized_graph env r = andThen (integrated_network env r) (\<lambda>g. filter_component env g 100)"

definition produce_integrated_graphml :: "'w env \<Rightarrow> 'w runner \<Rightarrow> error + 'w runner" where
  "produce_integrated_graphml env r =
     andThen (serialized_graph env r) (\<lambda>g.
     andThen (write_graphml env g
                (runner_output_folder r @ ''/'' @ py_str (repr_other env) (runner_name r) @ ''.graphml'')
                (world r)) (\<lambda>w'.
       Inr (r\<lparr>world := w'\<rparr>)))"

text \<open>Every attribute value of a row, and of every node of a graph, is in a set.\<close>

definition attrs_in :: "pyval set \<Rightarrow> row \<Rightarrow> bool" where
  "attrs_in A attrs = (snd ` set attrs \<subseteq> A)"

definition node_attrs_in :: "pyval set \<Rightarrow> nx_graph \<Rightarrow> bool" where
  "node_attrs_in A g = list_all (\<lambda>na. attrs_in A (snd na)) (nodes g)"

subsection \<open>Scheduling\<close>

text \<open>
  What \<^verbatim>\<open>run_and_integrate_per_depth\<close> does is observed as a trace: an event is
  recorded when a step starts, and an exception ends the trace after the event of
  the step that raised it. The steps are executed one after the other, so a step
  starts when all the steps before it have returned.
\<close>

datatype event =
    ReadGraphml pyval
  | NetworkToDf
  | ConsensusSmiles
  | ConsensusFormula
  | RunTool string
  | IntegrateTool string
  | ConsensusClass string
  | ProduceGraphml

type_synonym 'a traced = "event list \<times> (error + 'a)"

definition treturn :: "'a \<Rightarrow> 'a traced" where
  "treturn x = ([], Inr x)"

definition lift :: "error + 'a \<Rightarrow> 'a traced" where
  "lift m = ([], m)"

definition tbind :: "'a traced \<Rightarrow> ('a \<Rightarrow> 'b traced) \<Rightarrow> 'b traced" where
  "tbind m k =
     (case m of
        (tr, Inl e) \<Rightarrow> (tr, Inl e)
      | (tr, Inr x) \<Rightarrow> (case k x of (tr', res) \<Rightarrow> (tr @ tr', res)))"

definition step :: "event \<Rightarrow> error + 'a \<Rightarrow> 'a traced" where
  "step ev m = ([ev], m)"

text \<open>\<^verbatim>\<open>for tool in running: self.run_tool(tool)\<close> and
  \<^verbatim>\<open>for integration in integrating: self.integrate_tool(integration)\<close>\<close>

fun run_tools :: "'w env \<Rightarrow> string list \<Rightarrow> 'w runner \<Rightarrow> 'w runner traced" where
  "run_tools env [] r = treturn r"
| "run_tools env (tool # tools) r = tbind (step (RunTool tool) (run_tool env tool r)) (run_tools env tools)"

fun integrate_tools :: "'w env \<Rightarrow> string list \<Rightarrow> 'w runner \<Rightarrow> 'w runner traced" where
  "integrate_tools env [] r = treturn r"
| "integrate_tools env (tool # tools) r =
     tbind (step (IntegrateTool tool) (integrate_tool env tool r)) (integrate_tools env tools)"

text \<open>\<^verbatim>\<open>{tool for tool,depth in depths.items() if depth==current_depth}\<close>, in the order
  in which the set is iterated.\<close>

definition tools_at :: "'w env \<Rightarrow> (string \<times> pyval) list \<Rightarrow> pyval \<Rightarrow> string list" where
  "tools_at env depths current_depth =
     py_set_iter (set_order env) (map fst (filter (\<lambda>td. py_eq (snd td) current_depth) depths))"

text \<open>The two transitions at the head of the loop body.\<close>

definition load_graph :: "'w env \<Rightarrow> 'w runner \<Rightarrow> 'w runner traced" where
  "load_graph env r =
     tbind (lift (path r ''base_network'')) (\<lambda>p.
       tbind (step (ReadGraphml p) (read_graphml env p (world r))) (\<lambda>g. treturn (r\<lparr>graph := g\<rparr>)))"

definition make_network :: "'w env \<Rightarrow> 'w runner \<Rightarrow> 'w runner traced" where
  "make_network env r =
     tbind (step NetworkToDf (network_to_edgelist_and_nodes_df env (graph r))) (\<lambda>de.
       (let r1 = r\<lparr>network_df := fst de, network_edgelist := snd de,
                    integration_col := Some (PStr ''smiles'')\<rparr> in
        tbind (step ConsensusSmiles
                 (assign_apply env ''smiles'' ''csifingerid:smiles'' get_consensus_smiles (network_df r1))) (\<lambda>df1.
          tbind (step ConsensusFormula
                   (assign_apply env ''Molecular formula'' ''sirius:molecularFormula'' get_consensus_formula df1)) (\<lambda>df2.
            treturn (r1\<lparr>network_df := df2\<rparr>)))))"

text \<open>The body of the loop over the depths.\<close>

definition run_depth ::
  "'w env \<Rightarrow> (string \<times> pyval) list \<Rightarrow> (string \<times> pyval) list \<Rightarrow> pyval \<Rightarrow> 'w runner \<Rightarrow> 'w runner traced" where
  "run_depth env running_depths integration_depths current_depth r =
     tbind (if py_eq current_depth (PInt 3) then load_graph env r else treturn r) (\<lambda>r1.
     tbind (if py_eq current_depth (PInt 4) then make_network env r1 else treturn r1) (\<lambda>r2.
     tbind (run_tools env (tools_at env running_depths current_depth) r2) (\<lambda>r3.
       integrate_tools env (tools_at env integration_depths current_depth) r3)))"

fun depth_loop ::
  "'w env \<Rightarrow> (string \<times> pyval) list \<Rightarrow> (string \<times> pyval) list \<Rightarrow> pyval list \<Rightarrow> 'w runner \<Rightarrow> 'w runner traced" where
  "depth_loop env rd idp [] r = treturn r"
| "depth_loop env rd idp (d # ds) r = tbind (run_depth env rd idp d r) (depth_loop env rd idp ds)"

text \<open>\<^verbatim>\<open>for cf_class in ["subclass","class","superclass"]\<close>\<close>

fun class_loop :: "'w env \<Rightarrow> string list \<Rightarrow> 'w runner \<Rightarrow> 'w runner traced" where
  "class_loop env [] r = treturn r"
| "class_loop env (cf_class # cs) r =
     tbind (step (ConsensusClass cf_class)
              (assign_apply env cf_class (''canopus:CF_'' @ cf_class)
                 (\<lambda>x. get_consensus_class x cf_class) (network_df r)))
       (\<lambda>df. class_loop env cs (r\<lparr>network_df := df\<rparr>))"

definition depth_order :: "pyval list" where
  "depth_order = [PInt 1, PInt 2, PInt 3, PInt 4, PStr ''N/A'']"

definition run_and_integrate_per_depth :: "'w env \<Rightarrow> 'w runner \<Rightarrow> 'w runner traced" where
  "run_and_integrate_per_depth env r =
     tbind (lift (get_depths (settings r) (to_run (settings r)) ''running'')) (\<lambda>running_depths.
     tbind (lift (get_depths (settings r) (to_integrate (settings r)) ''integration'')) (\<lambda>integration_depths.
     tbind (depth_loop env running_depths integration_depths depth_order r) (\<lambda>r1.
     tbind (class_loop env [''subclass'', ''class'', ''superclass''] r1) (\<lambda>r2.
       step ProduceGraphml (produce_integrated_graphml env r2)))))"

definition run_all :: "'w env \<Rightarrow> 'w runner \<Rightarrow> 'w runner traced" where
  "run_all env r = run_and_integrate_per_depth env r"

text \<open>The use the module's docstring describes: generate a workflow instance from a
  settings file with the \<^verbatim>\<open>WorkflowRunner\<close> class, then run it.\<close>

definition construct_and_run :: "'w env \<Rightarrow> pyval \<Rightarrow> 'w \<Rightarrow> 'w runner traced" where
  "construct_and_run env settings_json w =
     tbind (lift (WorkflowRunner_init env settings_json w)) (run_all env)"

subsection \<open>Reading a trace\<close>

text \<open>The two depth dictionaries a run works with (empty when \<^verbatim>\<open>get_depths\<close> raises,
  in which case nothing is scheduled).\<close>

definition resolved :: "error + (string \<times> pyval) list \<Rightarrow> (string \<times> pyval) list" where
  "resolved m = (case m of Inl e \<Rightarrow> [] | Inr d \<Rightarrow> d)"

definition running_depths :: "'w runner \<Rightarrow> (string \<times> pyval) list" where
  "running_depths r = resolved (get_depths (settings r) (to_run (settings r)) ''running'')"

definition integration_depths :: "'w runner \<Rightarrow> (string \<times> pyval) list" where
  "integration_depths r = resolved (get_depths (settings r) (to_integrate (settings r)) ''integration'')"

definition depth_of :: "(string \<times> pyval) list \<Rightarrow> string \<Rightarrow> pyval" where
  "depth_of depths tool = (case map_of depths tool of None \<Rightarrow> PNone | Some d \<Rightarrow> d)"

text \<open>The position of a resolved depth in the order \<^verbatim>\<open>[1,2,3,4,"N/A"]\<close>; 5 for a value
  that is not a resolved depth.\<close>

definition bucket_index :: "pyval \<Rightarrow> nat" where
  "bucket_index d =
     (if d = PInt 1 then 0 else if d = PInt 2 then 1 else if d = PInt 3 then 2
      else if d = PInt 4 then 3 else if d = PStr ''N/A'' then 4 else 5)"

fun is_dispatch :: "event \<Rightarrow> bool" where
  "is_dispatch (RunTool t) = True"
| "is_dispatch (IntegrateTool t) = True"
| "is_dispatch _ = False"

definition dispatches :: "event list \<Rightarrow> event list" where
  "dispatches tr = filter is_dispatch tr"



text \<open>The stage of any event. A bucket \<open>i\<close> has five stages: three for the
  transitions at its head, then run (\<open>5 i + 3\<close>) and integrate (\<open>5 i + 4\<close>). Loading
  the graph belongs to the head of bucket 3 (index 2), the projection and its two
  consensus columns to the head of bucket 4 (index 3); the closing steps come after
  the last bucket.\<close>

fun stage :: "(string \<times> pyval) list \<Rightarrow> (string \<times> pyval) list \<Rightarrow> event \<Rightarrow> nat" where
  "stage rd idp (RunTool t) = 5 * bucket_index (depth_of rd t) + 3"
| "stage rd idp (IntegrateTool t) = 5 * bucket_index (depth_of idp t) + 4"
| "stage rd idp (ReadGraphml p) = 10"
| "stage rd idp NetworkToDf = 15"
| "stage rd idp ConsensusSmiles = 16"
| "stage rd idp ConsensusFormula = 17"
| "stage rd idp (ConsensusClass c) = 25"
| "stage rd idp ProduceGraphml = 26"

fun is_transition :: "event \<Rightarrow> bool" where
  "is_transition (ReadGraphml p) = True"
| "is_transition NetworkToDf = True"
| "is_transition ConsensusSmiles = True"
| "is_transition ConsensusFormula = True"
| "is_transition _ = False"

fun is_closing :: "event \<Rightarrow> bool" where
  "is_closing (ConsensusClass c) = True"
| "is_closing ProduceGraphml = True"
| "is_closing _ = False"

text \<open>The trace of a run in which nothing raises: per depth the transitions, the
  runs and the integrations, then the closing steps.\<close>

definition base_network_path :: "pyval \<Rightarrow> pyval" where
  "base_network_path p = (case py_get p ''base_network'' PNone of Inl e \<Rightarrow> PNone | Inr v \<Rightarrow> v)"

definition bucket_schedule :: "'w env \<Rightarrow> (string \<times> pyval) list \<Rightarrow> (string \<times> pyval) list \<Rightarrow> pyval \<Rightarrow> event list" where
  "bucket_schedule env rd idp d = map RunTool (tools_at env rd d) @ map IntegrateTool (tools_at env idp d)"

definition depth_plan :: "'w env \<Rightarrow> pyval \<Rightarrow> (string \<times> pyval) list \<Rightarrow> (string \<times> pyval) list \<Rightarrow> pyval \<Rightarrow> event list" where
  "depth_plan env p rd idp d =
     (if py_eq d (PInt 3) then [ReadGraphml (base_network_path p)] else []) @
     (if py_eq d (PInt 4) then [NetworkToDf, ConsensusSmiles, ConsensusFormula] else []) @
     bucket_schedule env rd idp d"

definition plan :: "'w env \<Rightarrow> 'w runner \<Rightarrow> event list" where
  "plan env r =
     concat (map (depth_plan env (paths (settings r)) (running_depths r) (integration_depths r)) depth_order) @
     map ConsensusClass [''subclass'', ''class'', ''superclass''] @ [ProduceGraphml]"

text \<open>A traced computation follows a list of events when its trace is a prefix of
  the list, and the whole list once it has returned; \<open>p\<close> is the paths dictionary,
  which a run leaves as it is.\<close>

definition follows :: "pyval \<Rightarrow> 'w runner traced \<Rightarrow> event list \<Rightarrow> bool" where
  "follows p m evs =
     (prefix (fst m) evs \<and>
      (case snd m of Inl e \<Rightarrow> True | Inr r \<Rightarrow> fst m = evs \<and> paths (settings r) = p))"

definition depths_ok :: "(string \<times> pyval) list \<Rightarrow> bool" where
  "depths_ok ds = (distinct (map fst ds) \<and> snd ` set ds \<subseteq> set depth_order)"


text \<open>The requirement checks of the constructor, in its order: tool and goal.\<close>

definition requirement_checks :: "settings \<Rightarrow> (string \<times> string) list" where
  "requirement_checks s =
     map (\<lambda>t. (t, ''running'')) (to_run s) @ map (\<lambda>t. (t, ''integration'')) (to_integrate s) @
     [(''all_tools'', ''running''), (''all_tools'', ''integration'')]"

text \<open>One check: \<^verbatim>\<open>get_tool_requirements\<close>, then \<^verbatim>\<open>validate_tool_requirements\<close>.\<close>

definition run_check :: "'w env \<Rightarrow> string \<times> string \<Rightarrow> settings \<Rightarrow> error + settings" where
  "run_check env tg = check_tool_requirement env (snd tg) (fst tg)"

section \<open>A concrete workflow\<close>

text \<open>
  A small settings document, its internal settings and collaborators that succeed,
  on which the theorems below are evaluated. The document selects \<^verbatim>\<open>mzmine\<close> for
  running and \<^verbatim>\<open>sirius\<close> and \<^verbatim>\<open>classyfire\<close> for integration; the internal settings
  require the path \<^verbatim>\<open>input_mgf\<close> to run \<^verbatim>\<open>mzmine\<close>, which the document does not
  give, and give \<^verbatim>\<open>toxtree\<close> the depth 5. Every collaborator returns its first
  argument; the projection of the graph has two nodes and the edge list one edge
  whose \<^verbatim>\<open>weight\<close> is missing. pandas is taken as version 2 has it for these frames.
\<close>

definition example_document :: pyval where
  "example_document = PDict
     [(''paths'', PDict [(''base_output_folder'', PStr ''out''),
                        (''internal_settings'', PStr ''internal.json''),
                        (''name'', PStr ''demo''),
                        (''base_network'', PStr ''base.graphml'')]),
      (''run_tools'', PDict [(''mzmine'', PStr ''True'')]),
      (''integrate_tools'', PDict [(''sirius'', PStr ''True''), (''classyfire'', PStr ''True'')])]"

definition example_config :: pyval where
  "example_config = PDict
     [(''mzmine'', PDict [(''depth'', PInt 1),
        (''running'', PDict [(''requirements'', PDict [(''paths'', PList [PStr ''input_mgf''])])])]),
      (''sirius'', PDict [(''integration'', PDict [(''depth'', PStr ''3'')])]),
      (''classyfire'', PDict [(''depth'', PInt 2), (''integration'', PDict [(''depth'', PInt 4)])]),
      (''toxtree'', PDict [(''depth'', PInt 5),
        (''running'', PDict [(''requirements'', PDict [(''paths'', PList [PStr ''toxtree_path''])])])])]"

text \<open>The same document with \<^verbatim>\<open>toxtree\<close> selected for running too: the path
  \<^verbatim>\<open>toxtree_path\<close> it requires is neither given nor registered by a tool.\<close>

definition example_document_toxtree :: pyval where
  "example_document_toxtree = PDict
     [(''paths'', PDict [(''base_output_folder'', PStr ''out''),
                        (''internal_settings'', PStr ''internal.json''),
                        (''name'', PStr ''demo''),
                        (''base_network'', PStr ''base.graphml'')]),
      (''run_tools'', PDict [(''mzmine'', PStr ''True''), (''toxtree'', PStr ''True'')]),
      (''integrate_tools'', PDict [(''sirius'', PStr ''True''), (''classyfire'', PStr ''True'')])]"

definition example_nodes :: dataframe where
  "example_nodes =
     \<lparr>columns = [''csifingerid:smiles'', ''canopus:CF_class'', ''CF:subclass'', ''CF:class'', ''CF:superclass''],
      rows = [(PStr ''n1'', [(''csifingerid:smiles'', PStr ''CCO''), (''canopus:CF_class'', PStr ''Ethers''),
                            (''CF:subclass'', PStr ''N/A''), (''CF:class'', PStr ''Alcohols''),
                            (''CF:superclass'', PNaN)]),
              (PStr ''n2'', [(''csifingerid:smiles'', PNone), (''canopus:CF_class'', PStr ''Ethers''),
                            (''CF:subclass'', PStr ''N/A''), (''CF:class'', PStr ''N/A''),
                            (''CF:superclass'', PNaN)])]\<rparr>"

text \<open>The projection of a run that did not integrate \<^verbatim>\<open>classyfire\<close>: it has no
  column \<^verbatim>\<open>CF:...\<close>.\<close>

definition example_nodes_sirius :: dataframe where
  "example_nodes_sirius =
     \<lparr>columns = [''csifingerid:smiles'', ''canopus:CF_class''],
      rows = [(PStr ''n1'', [(''csifingerid:smiles'', PStr ''CCO''), (''canopus:CF_class'', PStr ''Ethers'')]),
              (PStr ''n2'', [(''csifingerid:smiles'', PNone), (''canopus:CF_class'', PStr ''Ethers'')])]\<rparr>"

definition example_edges :: dataframe where
  "example_edges =
     \<lparr>columns = [''source'', ''target'', ''weight''],
      rows = [(PInt 0, [(''source'', PStr ''n1''), (''target'', PStr ''n2''), (''weight'', PNaN)])]\<rparr>"

text \<open>The dtype inference of pandas 2 for a column that holds numbers (integers
  within 64 bits) and \<^verbatim>\<open>None\<close> only: beside a float or \<^verbatim>\<open>None\<close> an integer becomes a
  float and \<^verbatim>\<open>None\<close> becomes \<^verbatim>\<open>nan\<close>. Every other column keeps its values.\<close>

fun is_number :: "pyval \<Rightarrow> bool" where
  "is_number (PInt i) = True"
| "is_number (PFloat x) = True"
| "is_number PNaN = True"
| "is_number _ = False"

fun is_int :: "pyval \<Rightarrow> bool" where
  "is_int (PInt i) = True"
| "is_int _ = False"

definition pandas2_cell :: "pyval list \<Rightarrow> pyval \<Rightarrow> pyval" where
  "pandas2_cell vs v =
     (if list_all (\<lambda>x. is_number x \<or> x = PNone) vs \<and> list_ex is_number vs \<and> \<not> list_all is_int vs
      then (case v of PNone \<Rightarrow> PNaN | PInt i \<Rightarrow> PFloat (of_int i) | _ \<Rightarrow> v)
      else v)"

definition example_env :: "unit env" where
  "example_env =
     \<lparr>json_from_string_or_file = (\<lambda>v w. Inr (case v of PStr f \<Rightarrow> example_config | _ \<Rightarrow> v)),
      validate_dictkeys = validate_dictkeys_spec,
      ctime = ''Wed Nov  4 07:26:00 2026'',
      mkdir = (\<lambda>p w. Inr w),
      set_order = (\<lambda>xs x. 0),
      repr_other = (\<lambda>v. ''?''),
      read_graphml = (\<lambda>p w. Inr (Graph \<lparr>nodes = [], edges = []\<rparr>)),
      network_to_edgelist_and_nodes_df = (\<lambda>g. Inr (Df example_nodes, Df example_edges)),
      external = (\<lambda>f args w. Inr (case args of [] \<Rightarrow> Val PNone | a # _ \<Rightarrow> a, w)),
      convert_missing = convert_missing_spec [''nan'', ''None''],
      filter_component = filter_component_spec,
      write_graphml = (\<lambda>g p w. Inr w),
      column_cell = pandas2_cell,
      setitem_refused = (\<lambda>df r k. False),
      writes_through = (\<lambda>df. False),
      apply_empty = (\<lambda>c df. Inl ValueError),
      str_keeps_missing = False\<rparr>"

text \<open>Settings with a given input, configuration and paths and nothing selected.\<close>

definition example_settings :: "pyval \<Rightarrow> pyval \<Rightarrow> pyval \<Rightarrow> settings" where
  "example_settings inp cfg p =
     \<lparr>input = inp, config = cfg, paths = p, name = PStr ''demo'', output_folder = ''out/demo'',
      to_run = [], to_integrate = [], mzmine = None, sirius = None, siriusdb = None,
      matchms = None, toxtree = None, classyfire = None, ms2lda = None\<rparr>"

text \<open>A runner after depth 4, with the example projection and edge list.\<close>

definition example_runner :: "unit runner" where
  "example_runner =
     \<lparr>settings = example_settings example_document example_config (PDict []),
      runner_name = PStr ''demo'', runner_output_folder = ''out/demo'',
      graph = Graph \<lparr>nodes = [], edges = []\<rparr>, network_df = Df example_nodes,
      network_edgelist = Df example_edges, integration_col = Some (PStr ''smiles''),
      runner_data = None, world = ()\<rparr>"

text \<open>The same runner with the projection of a run that did not integrate
  \<^verbatim>\<open>classyfire\<close>.\<close>

definition example_runner_sirius :: "unit runner" where
  "example_runner_sirius = example_runner\<lparr>network_df := Df example_nodes_sirius\<rparr>"

text \<open>The runner that the constructor makes of the example document.\<close>

definition example_started :: "unit runner" where
  "example_started =
     \<lparr>settings =
        \<lparr>input = example_document, config = example_config,
         paths = PDict
           [(''base_output_folder'', PStr ''out''),
            (''internal_settings'', PStr ''internal.json''),
            (''name'', PStr ''demo''),
            (''base_network'', PStr ''base.graphml''),
            (''input_mgf'', PStr ''out/demo/mzmine/mzmine_iimn_fbmn.mgf''),
            (''sirius_mgf'', PStr ''out/demo/mzmine/mzmine_sirius.mgf''),
            (''quant_table'', PStr ''out/demo/mzmine/mzmine_iimn_fbmn_quant_full.csv''),
            (''canopus_output'', PStr ''out/demo/sirius/canopus_structure_summary.tsv''),
            (''csi:fingerid_output'', PStr ''out/demo/sirius/structure_identifications.tsv''),
            (''sirius_tool_output'', PStr ''out/demo/sirius/formula_identifications.tsv''),
            (''sirius_output'', PStr ''out/demo/sirius/''),
            (''classyfire_output'', PStr ''out/demo/classyfire_results.sdf'')],
         name = PStr ''demo'', output_folder = ''out/demo'',
         to_run = [''mzmine''], to_integrate = [''sirius'', ''classyfire''],
         mzmine = Some (PDict []), sirius = Some (PDict []), siriusdb = None, matchms = None,
         toxtree = None, classyfire = Some (PDict []), ms2lda = None\<rparr>,
      runner_name = PStr ''demo'', runner_output_folder = ''out/demo'',
      graph = PyClass ''nx.Graph'', network_df = PyClass ''pd.DataFrame'',
      network_edgelist = PyClass ''nx.edgelist'', integration_col = None,
      runner_data = None, world = ()\<rparr>"


text \<open>The graph the example runner writes.\<close>

definition example_graph :: nx_graph where
  "example_graph =
     \<lparr>nodes =
        [(PStr ''n1'',
          [(''csifingerid:smiles'', PStr ''CCO''), (''canopus:CF_class'', PStr ''Ethers''),
           (''CF:subclass'', PStr ''N/A''), (''CF:class'', PStr ''Alcohols''),
           (''CF:superclass'', PStr ''N/A'')]),
         (PStr ''n2'',
          [(''csifingerid:smiles'', PStr ''N/A''), (''canopus:CF_class'', PStr ''Ethers''),
           (''CF:subclass'', PStr ''N/A''), (''CF:class'', PStr ''N/A''),
           (''CF:superclass'', PStr ''N/A'')])],
      edges = [((PStr ''n1'', PStr ''n2''), [(''weight'', PNaN)])]\<rparr>"

section \<open>Basic facts\<close>

lemma andThen_Inr_iff: "(andThen m f = Inr y) = (\<exists>x. m = Inr x \<and> f x = Inr y)"
  by (cases m) auto

lemma andThen_Inl_iff: "(andThen m f = Inl e) = (m = Inl e \<or> (\<exists>x. m = Inr x \<and> f x = Inl e))"
  by (cases m) auto

lemma tbind_alt:
  "tbind m k = (case snd m of Inl e \<Rightarrow> (fst m, Inl e) | Inr x \<Rightarrow> (fst m @ fst (k x), snd (k x)))"
  by (simp add: tbind_def split: prod.splits sum.splits)

lemma for_each_invariant:
  assumes "for_each f xs s = Inr s'" and "P s" and "\<And>x a b. f x a = Inr b \<Longrightarrow> P a \<Longrightarrow> P b"
  shows "P s'"
  using assms(1,2)
proof (induction xs arbitrary: s)
  case Nil
  then show ?case by simp
next
  case (Cons x xs)
  then show ?case by (auto simp: andThen_Inr_iff intro: assms(3))
qed

lemma set_py_set_iter: "set (py_set_iter key xs) = set xs"
  by (simp add: py_set_iter_def)

lemma distinct_py_set_iter: "distinct (py_set_iter key xs)"
  by (simp add: py_set_iter_def)

section \<open>Consensus of the formula and of the structure identifier\<close>

lemma row_index_update: "row_index (AList.update k v r) k' = (if k' = k then Inr v else row_index r k')"
  by (simp add: row_index_def update_conv')

lemma row_get_update: "row_get (AList.update k v r) k' = (if k' = k then v else row_get r k')"
  by (simp add: row_get_def update_conv')

lemma row_index_truthy: "truthy (row_get r k) \<Longrightarrow> row_index r k = Inr (row_get r k)"
  by (auto simp: row_get_def row_index_def split: option.splits)

lemma present_string: "(truthy v \<and> isinstance_str v) = (\<not> absent v \<and> isinstance_str v)"
  by (cases v) (simp_all add: absent_def)

text \<open>The formula field follows the rule of the spec on every row whose primary
  value is absent exactly when it is false (a text, \<^verbatim>\<open>None\<close>, a number other than
  0); a primary value \<^verbatim>\<open>nan\<close> is returned as it is, where the rule gives \<^verbatim>\<open>"N/A"\<close>.\<close>

lemma get_consensus_formula_spec:
  assumes "truthy (row_get r ''sirius:molecularFormula'') = (\<not> absent (row_get r ''sirius:molecularFormula''))"
  shows "get_consensus_formula r =
     Inr (spec_consensus (row_get r ''sirius:molecularFormula'') (row_get r ''sirius_db:molecularFormula''))"
proof -
  let ?p = "row_get r ''sirius:molecularFormula''" and ?s = "row_get r ''sirius_db:molecularFormula''"
  have "get_consensus_formula r =
          Inr (if truthy ?s \<and> isinstance_str ?s then ?s else if truthy ?p then ?p else PStr ''N/A'')"
    by (auto simp: get_consensus_formula_def default_na_def Let_def
          row_index_update row_get_update row_index_truthy)
  also have "\<dots> = Inr (spec_consensus ?p ?s)"
    using assms by (simp add: spec_consensus_def present_string)
  finally show ?thesis .
qed

lemma get_consensus_formula_keeps_nan:
  "get_consensus_formula [(''sirius:molecularFormula'', PNaN)] = Inr PNaN \<and>
   spec_consensus PNaN PNone = PStr ''N/A''"
  by (simp add: get_consensus_formula_def default_na_def row_get_def row_index_def spec_consensus_def absent_def)

text \<open>
  C2. The claim: for every row the consensus of the smiles field and of the formula
  field is the secondary (database) value when that is present and a string, and
  otherwise the primary value, with \<^verbatim>\<open>"N/A"\<close> for an absent primary; so primary
  \<^verbatim>\<open>"X"\<close> with secondary \<^verbatim>\<open>"Y"\<close> gives \<^verbatim>\<open>"Y"\<close>, and an absent primary with secondary
  \<^verbatim>\<open>"Y"\<close> gives \<^verbatim>\<open>"Y"\<close>. The formula field does on every row whose primary value is
  a text or \<^verbatim>\<open>None\<close> (lemma \<open>get_consensus_formula_spec\<close>).
  \<^verbatim>\<open>get_consensus_smiles\<close> tests the column \<^verbatim>\<open>CF\<close> where its docstring and the formula
  function test the database column: on a row without a column \<^verbatim>\<open>CF\<close> it returns
  the primary value \<^verbatim>\<open>"X"\<close>, respectively \<^verbatim>\<open>"N/A"\<close>, although the database value
  \<^verbatim>\<open>"Y"\<close> is there.
\<close>

theorem get_consensus_smiles_ignores_database_value:
  "get_consensus_smiles [(''csifingerid:smiles'', PStr ''X''), (''csifingerid_db:smiles'', PStr ''Y'')]
     = Inr (PStr ''X'') \<and>
   get_consensus_smiles [(''csifingerid:smiles'', PNone), (''csifingerid_db:smiles'', PStr ''Y'')]
     = Inr (PStr ''N/A'') \<and>
   get_consensus_formula [(''sirius:molecularFormula'', PStr ''X''), (''sirius_db:molecularFormula'', PStr ''Y'')]
     = Inr (PStr ''Y'')"
  by (simp add: get_consensus_smiles_def get_consensus_formula_def default_na_def row_get_def row_index_def)

section \<open>Unknown tools\<close>

text \<open>
  C9. For every tool identifier outside the known set (the eight names of
  \<^verbatim>\<open>available_integrations\<close>, which include the six of \<^verbatim>\<open>available_tools\<close> and every
  case of the two \<^verbatim>\<open>match\<close> statements), \<^verbatim>\<open>run_tool\<close> and \<^verbatim>\<open>integrate_tool\<close> return
  without an error and leave the runner (graph, projection, settings) and the world
  as they are; dispatching such a tool records the dispatch and nothing else.
\<close>

theorem unknown_tool_is_noop:
  "tool \<notin> set available_integrations \<Longrightarrow>
     run_tool env tool r = Inr r \<and> integrate_tool env tool r = Inr r \<and>
     run_tools env [tool] r = ([RunTool tool], Inr r) \<and>
     integrate_tools env [tool] r = ([IntegrateTool tool], Inr r)"
  by (simp add: available_integrations_def run_tool_def integrate_tool_def tbind_alt step_def treturn_def)

theorem unknown_tool_is_noop_witness:
  "''blast'' \<notin> set available_integrations \<and>
   run_tool example_env ''blast'' example_runner = Inr example_runner \<and>
   integrate_tool example_env ''blast'' example_runner = Inr example_runner \<and>
   run_tools example_env [''blast''] example_runner = ([RunTool ''blast''], Inr example_runner) \<and>
   integrate_tools example_env [''blast''] example_runner = ([IntegrateTool ''blast''], Inr example_runner)"
  using unknown_tool_is_noop [of "''blast''" example_env example_runner]
  by (simp add: available_integrations_def del: run_tools.simps integrate_tools.simps)

section \<open>Requirement validation\<close>

lemma validate_tool_requirements_ok_iff:
  "(validate_tool_requirements env s tool (PList [a, b], PList [], PList [PList [c, d]], PList []) = Inr ())
   = (validate_dictkeys env (paths s) (PList [a, b]) = Inr True \<and>
      (\<exists>ti. py_get (input s) tool PNone = Inr ti \<and> validate_dictkeys env ti (PList []) = Inr True) \<and>
      validate_dictkeys env (paths s) (PList [c, d]) = Inr True)"
  by (auto simp: validate_tool_requirements_def andThen_Inr_iff split: if_splits)

lemma validate_tool_requirements_same_verdict:
  "(validate_tool_requirements env s tool (PList [a, b], PList [], PList [PList [c, d]], PList []) = Inr ())
     = (validate_tool_requirements env s tool (PList [c, d], PList [], PList [PList [a, b]], PList []) = Inr ())"
  unfolding validate_tool_requirements_ok_iff by blast

text \<open>
  C5. The claim: with required paths \<^verbatim>\<open>[a,b]\<close> and the optional group \<^verbatim>\<open>[c,d]\<close>, a
  configuration without \<^verbatim>\<open>b\<close> fails, one with \<^verbatim>\<open>a\<close>, \<^verbatim>\<open>b\<close>, \<^verbatim>\<open>c\<close> passes (one
  member of a group suffices), and one with \<^verbatim>\<open>a\<close>, \<^verbatim>\<open>b\<close> alone fails naming the
  group. \<^verbatim>\<open>validate_tool_requirements\<close> checks an optional group with the very
  function that checks a required list, so, whatever \<^verbatim>\<open>validate_dictkeys\<close> does,
  the verdict does not change when the required list and the optional group are
  swapped: the code cannot require all of \<^verbatim>\<open>[a,b]\<close> and one of \<^verbatim>\<open>[c,d]\<close>. With the
  helper the spec describes (all keys present), the configuration with \<^verbatim>\<open>a\<close>,
  \<^verbatim>\<open>b\<close>, \<^verbatim>\<open>c\<close> is rejected with the message "Any one of ['c', 'd'] required".
\<close>

theorem optional_group_checked_like_required_list:
  "((validate_tool_requirements env s tool (PList [a, b], PList [], PList [PList [c, d]], PList []) = Inr ())
     = (validate_tool_requirements env s tool (PList [c, d], PList [], PList [PList [a, b]], PList []) = Inr ())) \<and>
   validate_tool_requirements example_env
     (example_settings (PDict []) (PDict [])
        (PDict [(''a'', PStr ''1''), (''b'', PStr ''2''), (''c'', PStr ''3'')]))
     ''sirius'' (PList [PStr ''a'', PStr ''b''], PList [], PList [PList [PStr ''c'', PStr ''d'']], PList [])
   = Inl (Settingserror (MissingOptionalPaths (PList [PStr ''c'', PStr ''d'']) ''sirius''))"
proof
  show "(validate_tool_requirements env s tool (PList [a, b], PList [], PList [PList [c, d]], PList []) = Inr ())
     = (validate_tool_requirements env s tool (PList [c, d], PList [], PList [PList [a, b]], PList []) = Inr ())"
    by (rule validate_tool_requirements_same_verdict)
next
  show "validate_tool_requirements example_env
     (example_settings (PDict []) (PDict [])
        (PDict [(''a'', PStr ''1''), (''b'', PStr ''2''), (''c'', PStr ''3'')]))
     ''sirius'' (PList [PStr ''a'', PStr ''b''], PList [], PList [PList [PStr ''c'', PStr ''d'']], PList [])
   = Inl (Settingserror (MissingOptionalPaths (PList [PStr ''c'', PStr ''d'']) ''sirius''))"
    by (simp add: validate_tool_requirements_def example_env_def example_settings_def)
qed

section \<open>Tool settings and the paths\<close>











lemmas settings_eval = example_env_def example_document_def example_document_toxtree_def example_config_def
  available_tools_def available_integrations_def
  WorkflowSettings_setup_def WorkflowSettings_init_def WorkflowSettings_checks_def validate_required_settings_def
  required_settings_def required_paths_def default_name_def py_set_iter_def set_tool_settings_def set_tool_setting_def
  check_tool_requirements_def check_tool_requirement_def get_tool_requirements_def validate_tool_requirements_def
  Let_def


section \<open>Validation before execution\<close>

lemma check_tool_requirement_state: "check_tool_requirement env goal tool s = Inr s' \<Longrightarrow> s' = s"
  by (auto simp: check_tool_requirement_def andThen_Inr_iff)

lemma for_each_append: "for_each f (xs @ ys) s = andThen (for_each f xs s) (for_each f ys)"
proof (induction xs arbitrary: s)
  case Nil
  then show ?case by simp
next
  case (Cons x xs)
  then show ?case by (cases "f x s") simp_all
qed

lemma for_each_map: "for_each f (map g xs) s = for_each (\<lambda>x. f (g x)) xs s"
proof (induction xs arbitrary: s)
  case Nil
  then show ?case by simp
next
  case (Cons x xs)
  then show ?case by (cases "f (g x) s") simp_all
qed

lemma run_check_state: "run_check env tg s = Inr s' \<Longrightarrow> s' = s"
  by (auto simp: run_check_def dest: check_tool_requirement_state)

lemma for_each_check_state: "for_each (run_check env) xs s = Inr s' \<Longrightarrow> s' = s"
  by (erule for_each_invariant[where P = "\<lambda>a. a = s"]) (auto dest: run_check_state)

lemma check_tool_requirements_loop:
  "check_tool_requirements env ts goal s = for_each (run_check env) (map (\<lambda>t. (t, goal)) ts) s"
  by (simp add: check_tool_requirements_def for_each_map run_check_def)

lemma checks_as_one_loop:
  "WorkflowSettings_checks env s = for_each (run_check env) (requirement_checks s) s"
proof (cases "for_each (run_check env) (map (\<lambda>t. (t, ''running'')) (to_run s)) s")
  case (Inl e)
  then show ?thesis
    by (simp add: WorkflowSettings_checks_def check_tool_requirements_loop requirement_checks_def for_each_append)
next
  case 1: (Inr s1)
  then have s1: "s1 = s" by (rule for_each_check_state)
  show ?thesis
  proof (cases "for_each (run_check env) (map (\<lambda>t. (t, ''integration'')) (to_integrate s)) s")
    case (Inl e)
    with 1 s1 show ?thesis
      by (simp add: WorkflowSettings_checks_def check_tool_requirements_loop requirement_checks_def for_each_append)
  next
    case 2: (Inr s2)
    then have s2: "s2 = s" by (rule for_each_check_state)
    show ?thesis
    proof (cases "run_check env (''all_tools'', ''running'') s")
      case (Inl e)
      with 1 s1 2 s2 show ?thesis
        by (simp add: WorkflowSettings_checks_def check_tool_requirements_loop requirement_checks_def for_each_append)
    next
      case 3: (Inr s3)
      then have s3: "s3 = s" by (rule run_check_state)
      with 1 s1 2 s2 3 show ?thesis
        by (simp add: WorkflowSettings_checks_def check_tool_requirements_loop requirement_checks_def for_each_append)
    qed
  qed
qed

text \<open>A loop whose body leaves the state alone stops at the first element that raises.\<close>

lemma for_each_first_error:
  assumes st: "\<And>x s'. f x s = Inr s' \<Longrightarrow> s' = s"
  shows "(for_each f xs s = Inl e) =
         (\<exists>i<length xs. (\<forall>j<i. f (xs ! j) s = Inr s) \<and> f (xs ! i) s = Inl e)"
proof (induction xs)
  case Nil
  then show ?case by simp
next
  case (Cons x xs)
  show ?case
  proof (cases "f x s")
    case (Inl e')
    show ?thesis
    proof
      assume "for_each f (x # xs) s = Inl e"
      with Inl have "e' = e" by simp
      with Inl show "\<exists>i<length (x # xs). (\<forall>j<i. f ((x # xs) ! j) s = Inr s) \<and> f ((x # xs) ! i) s = Inl e"
        by (intro exI[of _ 0]) simp
    next
      assume "\<exists>i<length (x # xs). (\<forall>j<i. f ((x # xs) ! j) s = Inr s) \<and> f ((x # xs) ! i) s = Inl e"
      then obtain i where i: "i < length (x # xs)" "\<forall>j<i. f ((x # xs) ! j) s = Inr s" "f ((x # xs) ! i) s = Inl e"
        by blast
      have "i = 0"
      proof (rule ccontr)
        assume "i \<noteq> 0"
        then have "0 < i" by simp
        with i(2) have "f ((x # xs) ! 0) s = Inr s" by blast
        with Inl show False by simp
      qed
      with i(3) Inl show "for_each f (x # xs) s = Inl e" by simp
    qed
  next
    case (Inr s')
    then have s': "s' = s" by (rule st)
    have step: "for_each f (x # xs) s = for_each f xs s"
      using Inr s' by simp
    show ?thesis
    proof
      assume "for_each f (x # xs) s = Inl e"
      with step Cons.IH obtain i where i: "i < length xs" "\<forall>j<i. f (xs ! j) s = Inr s" "f (xs ! i) s = Inl e"
        by auto
      have "\<forall>j<Suc i. f ((x # xs) ! j) s = Inr s"
        using i(2) Inr s' by (auto simp: nth_Cons split: nat.splits)
      with i(1,3) show "\<exists>i<length (x # xs). (\<forall>j<i. f ((x # xs) ! j) s = Inr s) \<and> f ((x # xs) ! i) s = Inl e"
        by (intro exI[of _ "Suc i"]) simp
    next
      assume "\<exists>i<length (x # xs). (\<forall>j<i. f ((x # xs) ! j) s = Inr s) \<and> f ((x # xs) ! i) s = Inl e"
      then obtain i where i: "i < length (x # xs)" "\<forall>j<i. f ((x # xs) ! j) s = Inr s" "f ((x # xs) ! i) s = Inl e"
        by blast
      from i(3) Inr obtain k where k: "i = Suc k" by (cases i) auto
      with i have "k < length xs" "f (xs ! k) s = Inl e" by auto
      moreover have "\<forall>j<k. f (xs ! j) s = Inr s"
      proof (intro allI impI)
        fix j assume "j < k"
        then have "Suc j < i" using k by simp
        with i(2) have "f ((x # xs) ! Suc j) s = Inr s" by blast
        then show "f (xs ! j) s = Inr s" by simp
      qed
      ultimately have "for_each f xs s = Inl e" using Cons.IH by blast
      with step show "for_each f (x # xs) s = Inl e" by simp
    qed
  qed
qed

lemma for_each_all_ok:
  assumes st: "\<And>x s'. f x s = Inr s' \<Longrightarrow> s' = s"
  shows "(\<exists>s'. for_each f xs s = Inr s') = (\<forall>x\<in>set xs. f x s = Inr s)"
proof (induction xs)
  case Nil
  then show ?case by simp
next
  case (Cons x xs)
  show ?case
  proof (cases "f x s")
    case (Inl e)
    then show ?thesis by simp
  next
    case (Inr s')
    then have "s' = s" by (rule st)
    with Inr Cons.IH show ?thesis by simp
  qed
qed

text \<open>
  C8. Requirement validation is fail-fast and complete before execution. An error
  of the constructor leaves nothing to run: no step is recorded. Once the settings
  are set up, the constructor returns a runner exactly when the requirements of
  every selected run tool (goal \<^verbatim>\<open>running\<close>), of every selected integration tool
  (goal \<^verbatim>\<open>integration\<close>) and of \<^verbatim>\<open>all_tools\<close> (both goals) are met, and it raises
  \<open>e\<close> exactly when \<open>e\<close> is the error of the first check that fails, in that order.
\<close>

theorem requirements_validated_before_dispatch:
  "(WorkflowRunner_init env sj w = Inl e \<longrightarrow> construct_and_run env sj w = ([], Inl e)) \<and>
   (WorkflowSettings_setup env sj available_tools available_integrations w = Inr (s, w') \<longrightarrow>
      ((\<exists>r. WorkflowRunner_init env sj w = Inr r) =
         (\<forall>tg\<in>set (requirement_checks s). run_check env tg s = Inr s)) \<and>
      ((WorkflowRunner_init env sj w = Inl e) =
         (\<exists>i<length (requirement_checks s).
            (\<forall>j<i. run_check env (requirement_checks s ! j) s = Inr s) \<and>
            run_check env (requirement_checks s ! i) s = Inl e)))"
proof (intro conjI impI)
  assume "WorkflowRunner_init env sj w = Inl e"
  then show "construct_and_run env sj w = ([], Inl e)"
    by (simp add: construct_and_run_def tbind_alt lift_def)
next
  assume su: "WorkflowSettings_setup env sj available_tools available_integrations w = Inr (s, w')"
  have init: "WorkflowRunner_init env sj w =
      andThen (for_each (run_check env) (requirement_checks s) s) (\<lambda>s1.
        Inr \<lparr>settings = s1, runner_name = name s1, runner_output_folder = output_folder s1,
            graph = PyClass ''nx.Graph'', network_df = PyClass ''pd.DataFrame'',
            network_edgelist = PyClass ''nx.edgelist'', integration_col = None,
            runner_data = None, world = w'\<rparr>)"
    using su
    by (cases "for_each (run_check env) (requirement_checks s) s")
       (simp_all add: WorkflowRunner_init_def WorkflowSettings_init_def checks_as_one_loop)
  have st: "\<And>x s'. run_check env x s = Inr s' \<Longrightarrow> s' = s"
    by (rule run_check_state)
  have "(\<exists>r. WorkflowRunner_init env sj w = Inr r) =
          (\<exists>s'. for_each (run_check env) (requirement_checks s) s = Inr s')"
    unfolding init by (cases "for_each (run_check env) (requirement_checks s) s") simp_all
  also have "\<dots> = (\<forall>tg\<in>set (requirement_checks s). run_check env tg s = Inr s)"
    by (rule for_each_all_ok[OF st])
  finally show "(\<exists>r. WorkflowRunner_init env sj w = Inr r) =
         (\<forall>tg\<in>set (requirement_checks s). run_check env tg s = Inr s)" .
  have "(WorkflowRunner_init env sj w = Inl e) =
          (for_each (run_check env) (requirement_checks s) s = Inl e)"
    unfolding init by (cases "for_each (run_check env) (requirement_checks s) s") simp_all
  also have "\<dots> = (\<exists>i<length (requirement_checks s).
            (\<forall>j<i. run_check env (requirement_checks s ! j) s = Inr s) \<and>
            run_check env (requirement_checks s ! i) s = Inl e)"
    by (rule for_each_first_error[OF st])
  finally show "(WorkflowRunner_init env sj w = Inl e) =
         (\<exists>i<length (requirement_checks s).
            (\<forall>j<i. run_check env (requirement_checks s ! j) s = Inr s) \<and>
            run_check env (requirement_checks s ! i) s = Inl e)" .
qed

lemmas runner_eval = WorkflowRunner_init_def settings_eval

theorem requirements_validated_before_dispatch_witness:
  "(case WorkflowSettings_setup example_env example_document available_tools available_integrations () of
      Inl e \<Rightarrow> False
    | Inr sw \<Rightarrow>
        (\<exists>r. WorkflowRunner_init example_env example_document () = Inr r) \<and>
        run_check example_env (''mzmine'', ''running'') (fst sw) = Inr (fst sw) \<and>
        run_check example_env (''all_tools'', ''integration'') (fst sw) = Inr (fst sw)) \<and>
   WorkflowRunner_init example_env example_document_toxtree () =
     Inl (Settingserror (MissingPaths (PList [PStr ''toxtree_path'']) ''toxtree'')) \<and>
   construct_and_run example_env example_document_toxtree () =
     ([], Inl (Settingserror (MissingPaths (PList [PStr ''toxtree_path'']) ''toxtree'')))"
proof -
  obtain s where 1: "WorkflowSettings_setup example_env example_document available_tools available_integrations () = Inr (s, ())"
    and 2: "to_run s = [''mzmine'']"
    by (simp add: settings_eval)
  have 3: "\<exists>r. WorkflowRunner_init example_env example_document () = Inr r"
    by (simp add: runner_eval)
  have 4: "WorkflowRunner_init example_env example_document_toxtree () =
     Inl (Settingserror (MissingPaths (PList [PStr ''toxtree_path'']) ''toxtree''))"
    by (simp add: runner_eval)
  from requirements_validated_before_dispatch[of example_env example_document "()" _ s "()"] 1 3
  have "\<forall>tg\<in>set (requirement_checks s). run_check example_env tg s = Inr s" by blast
  with 2 have 5: "run_check example_env (''mzmine'', ''running'') s = Inr s"
    and 6: "run_check example_env (''all_tools'', ''integration'') s = Inr s"
    by (simp_all add: requirement_checks_def)
  from requirements_validated_before_dispatch[of example_env example_document_toxtree "()"] 4
  have 7: "construct_and_run example_env example_document_toxtree () =
     ([], Inl (Settingserror (MissingPaths (PList [PStr ''toxtree_path'']) ''toxtree'')))" by blast
  from 1 3 4 5 6 7 show ?thesis by simp
qed

section \<open>Depth resolution\<close>

lemma set_update_cases: "(a, b) \<in> set (AList.update k v al) \<Longrightarrow> (a, b) = (k, v) \<or> (a, b) \<in> set al"
  by (induction al) (auto split: if_splits)

lemma match_depth_range: "match_depth v = Some d \<Longrightarrow> d \<in> set depth_order"
  by (auto simp: match_depth_def depth_order_def split: if_splits)

lemma update_depths_ok: "depths_ok ds \<Longrightarrow> d \<in> set depth_order \<Longrightarrow> depths_ok (AList.update t d ds)"
  unfolding depths_ok_def
  by (auto simp: distinct_update dest!: set_update_cases)

lemma get_depths_step_ok:
  assumes "get_depths_step s goal tool ds = Inr ds'" "depths_ok ds"
  shows "depths_ok ds'"
proof -
  from assms(1) obtain v where ds': "ds' = (case match_depth v of Some d \<Rightarrow> AList.update tool d ds | None \<Rightarrow> ds)"
    by (auto simp: get_depths_step_def andThen_Inr_iff)
  show ?thesis
  proof (cases "match_depth v")
    case None
    with ds' assms(2) show ?thesis by simp
  next
    case (Some d)
    with ds' assms(2) show ?thesis
      by (simp add: update_depths_ok match_depth_range)
  qed
qed

lemma get_depths_ok: "get_depths s tools goal = Inr ds \<Longrightarrow> depths_ok ds"
  unfolding get_depths_def
proof (erule for_each_invariant[where P = depths_ok])
  show "depths_ok []" by (simp add: depths_ok_def)
qed (rule get_depths_step_ok)

lemma get_depths_step_map_of:
  assumes "get_depths_step s goal tool ds = Inr ds'"
  shows "\<exists>v. configured_depth s goal tool = Inr v \<and>
             map_of ds' = (case match_depth v of Some d \<Rightarrow> (map_of ds)(tool \<mapsto> d) | None \<Rightarrow> map_of ds)"
proof -
  from assms obtain v where v: "configured_depth s goal tool = Inr v"
    and ds': "ds' = (case match_depth v of Some d \<Rightarrow> AList.update tool d ds | None \<Rightarrow> ds)"
    by (auto simp: get_depths_step_def andThen_Inr_iff)
  have "map_of ds' = (case match_depth v of Some d \<Rightarrow> (map_of ds)(tool \<mapsto> d) | None \<Rightarrow> map_of ds)"
    unfolding ds' by (cases "match_depth v") (simp_all add: update_conv')
  with v show ?thesis by blast
qed

lemma for_each_get_depths_map_of:
  assumes "for_each (get_depths_step s goal) tools acc = Inr ds"
  shows "(t \<notin> set tools \<longrightarrow> map_of ds t = map_of acc t) \<and>
         (t \<in> set tools \<longrightarrow> (\<exists>v. configured_depth s goal t = Inr v \<and>
             map_of ds t = (case match_depth v of Some d \<Rightarrow> Some d | None \<Rightarrow> map_of acc t)))"
  using assms
proof (induction tools arbitrary: acc)
  case Nil
  then show ?case by simp
next
  case (Cons x xs)
  from Cons.prems obtain acc1 where 1: "get_depths_step s goal x acc = Inr acc1"
    and 2: "for_each (get_depths_step s goal) xs acc1 = Inr ds"
    by (auto simp: andThen_Inr_iff)
  from get_depths_step_map_of[OF 1] obtain v where v: "configured_depth s goal x = Inr v"
    and m: "map_of acc1 = (case match_depth v of Some d \<Rightarrow> (map_of acc)(x \<mapsto> d) | None \<Rightarrow> map_of acc)"
    by blast
  from Cons.IH[OF 2] have IH1: "t \<notin> set xs \<Longrightarrow> map_of ds t = map_of acc1 t"
    and IH2: "t \<in> set xs \<Longrightarrow> \<exists>v. configured_depth s goal t = Inr v \<and>
             map_of ds t = (case match_depth v of Some d \<Rightarrow> Some d | None \<Rightarrow> map_of acc1 t)"
    by auto
  show ?case
  proof (cases "t \<in> set xs")
    case True
    from IH2[OF True] obtain v' where v': "configured_depth s goal t = Inr v'"
      and m': "map_of ds t = (case match_depth v' of Some d \<Rightarrow> Some d | None \<Rightarrow> map_of acc1 t)"
      by blast
    show ?thesis
    proof (cases "t = x")
      case True
      with v v' have "v' = v" by simp
      with m m' True \<open>t \<in> set xs\<close> v show ?thesis by (auto split: option.splits)
    next
      case False
      with m m' True v' show ?thesis by (auto split: option.splits)
    qed
  next
    case False
    with IH1 m v show ?thesis by (auto split: option.splits)
  qed
qed

lemma match_depth_None:
  "(match_depth v = None) =
     (v \<notin> {PInt 1, PFloat 1, PBool True, PStr ''1'', PInt 2, PFloat 2, PStr ''2'',
            PInt 3, PFloat 3, PStr ''3'', PInt 4, PFloat 4, PStr ''4'', PStr ''N/A''})"
proof (cases v)
  case (PBool b)
  then show ?thesis by (cases b) (simp_all add: match_depth_def)
next
  case (PInt i)
  then show ?thesis by (simp add: match_depth_def)
next
  case (PFloat x)
  then show ?thesis by (simp add: match_depth_def)
next
  case (PStr t)
  then show ?thesis by (simp add: match_depth_def)
qed (simp_all add: match_depth_def)

text \<open>
  C4, as amended. For every tool of the input and every goal, the depth taken from
  the configuration (\<open>v\<close>) is the goal-specific depth when that is present and true,
  otherwise the tool-level depth, otherwise \<^verbatim>\<open>"N/A"\<close>. A tool whose configured depth
  is 1, 2, 3 or 4, as a number (a value equal to it: \<^verbatim>\<open>1\<close>, \<^verbatim>\<open>1.0\<close>, \<^verbatim>\<open>True\<close>) or as
  the text \<^verbatim>\<open>"1"\<close> .. \<^verbatim>\<open>"4"\<close>, receives that number as its resolved depth, and one
  whose configured depth is \<^verbatim>\<open>"N/A"\<close> receives \<^verbatim>\<open>"N/A"\<close>; a tool with any other
  configured depth receives none. The resolved depths are all among 1, 2, 3, 4,
  \<^verbatim>\<open>"N/A"\<close> and belong to tools of the input.
\<close>

theorem resolved_depth_of_recognised_value:
  assumes "get_depths s tools goal = Inr depths" and "tool \<in> set tools" and "configured_depth s goal tool = Inr v"
  shows "(v \<in> {PInt 1, PFloat 1, PBool True, PStr ''1''} \<longrightarrow> map_of depths tool = Some (PInt 1)) \<and>
         (v \<in> {PInt 2, PFloat 2, PStr ''2''} \<longrightarrow> map_of depths tool = Some (PInt 2)) \<and>
         (v \<in> {PInt 3, PFloat 3, PStr ''3''} \<longrightarrow> map_of depths tool = Some (PInt 3)) \<and>
         (v \<in> {PInt 4, PFloat 4, PStr ''4''} \<longrightarrow> map_of depths tool = Some (PInt 4)) \<and>
         (v = PStr ''N/A'' \<longrightarrow> map_of depths tool = Some (PStr ''N/A'')) \<and>
         (v \<notin> {PInt 1, PFloat 1, PBool True, PStr ''1'', PInt 2, PFloat 2, PStr ''2'',
                PInt 3, PFloat 3, PStr ''3'', PInt 4, PFloat 4, PStr ''4'', PStr ''N/A''} \<longrightarrow>
            map_of depths tool = None) \<and>
         fst ` set depths \<subseteq> set tools \<and> snd ` set depths \<subseteq> set depth_order \<and>
         (\<exists>cfg goal_cfg goal_depth.
            py_get (config s) tool (PDict []) = Inr cfg \<and>
            py_get cfg goal (PDict []) = Inr goal_cfg \<and>
            py_get goal_cfg ''depth'' PNone = Inr goal_depth \<and>
            (if truthy goal_depth then v = goal_depth
             else py_get cfg ''depth'' (PStr ''N/A'') = Inr v))"
proof -
  have 5: "\<exists>cfg goal_cfg goal_depth.
            py_get (config s) tool (PDict []) = Inr cfg \<and>
            py_get cfg goal (PDict []) = Inr goal_cfg \<and>
            py_get goal_cfg ''depth'' PNone = Inr goal_depth \<and>
            (if truthy goal_depth then v = goal_depth
             else py_get cfg ''depth'' (PStr ''N/A'') = Inr v)"
    using assms(3) unfolding configured_depth_def andThen_Inr_iff
    by (elim exE conjE) (intro exI conjI, assumption+, simp split: if_splits)
  have fe: "for_each (get_depths_step s goal) tools [] = Inr depths"
    using assms(1) by (simp add: get_depths_def)
  from for_each_get_depths_map_of[OF fe, of tool] assms(2,3)
  have 1: "map_of depths tool = match_depth v" by (auto split: option.splits)
  have a1: "v \<in> {PInt 1, PFloat 1, PBool True, PStr ''1''} \<longrightarrow> map_of depths tool = Some (PInt 1)"
    unfolding 1 by (auto simp: match_depth_def)
  have a2: "v \<in> {PInt 2, PFloat 2, PStr ''2''} \<longrightarrow> map_of depths tool = Some (PInt 2)"
    unfolding 1 by (auto simp: match_depth_def)
  have a3: "v \<in> {PInt 3, PFloat 3, PStr ''3''} \<longrightarrow> map_of depths tool = Some (PInt 3)"
    unfolding 1 by (auto simp: match_depth_def)
  have a4: "v \<in> {PInt 4, PFloat 4, PStr ''4''} \<longrightarrow> map_of depths tool = Some (PInt 4)"
    unfolding 1 by (auto simp: match_depth_def)
  have a5: "v = PStr ''N/A'' \<longrightarrow> map_of depths tool = Some (PStr ''N/A'')"
    unfolding 1 by (auto simp: match_depth_def)
  have a6: "v \<notin> {PInt 1, PFloat 1, PBool True, PStr ''1'', PInt 2, PFloat 2, PStr ''2'',
                PInt 3, PFloat 3, PStr ''3'', PInt 4, PFloat 4, PStr ''4'', PStr ''N/A''} \<longrightarrow>
            map_of depths tool = None"
    unfolding 1 match_depth_None by blast
  have 3: "fst ` set depths \<subseteq> set tools"
  proof
    fix t assume "t \<in> fst ` set depths"
    then have "map_of depths t \<noteq> None" by (simp add: map_of_eq_None_iff)
    with for_each_get_depths_map_of[OF fe, of t] show "t \<in> set tools" by auto
  qed
  have 4: "snd ` set depths \<subseteq> set depth_order"
    using get_depths_ok[OF assms(1)] by (simp add: depths_ok_def)
  from a1 a2 a3 a4 a5 a6 3 4 5 show ?thesis by blast
qed

text \<open>In the example configuration \<^verbatim>\<open>sirius\<close> has the integration depth \<^verbatim>\<open>"3"\<close>, a
  text, and is resolved to the number 3; \<^verbatim>\<open>classyfire\<close> has the depth 2 and the
  integration depth 4, which is preferred for the integration and not for the
  running; a tool the configuration does not know has the depth \<^verbatim>\<open>"N/A"\<close>.\<close>

theorem resolved_depth_of_recognised_value_witness:
  "get_depths (example_settings example_document example_config (PDict [])) [''sirius'', ''classyfire''] ''integration''
     = Inr [(''sirius'', PInt 3), (''classyfire'', PInt 4)] \<and>
   configured_depth (example_settings example_document example_config (PDict [])) ''integration'' ''sirius'' = Inr (PStr ''3'') \<and>
   map_of [(''sirius'', PInt 3), (''classyfire'', PInt 4)] ''sirius'' = Some (PInt 3) \<and>
   configured_depth (example_settings example_document example_config (PDict [])) ''integration'' ''classyfire'' = Inr (PInt 4) \<and>
   configured_depth (example_settings example_document example_config (PDict [])) ''running'' ''classyfire'' = Inr (PInt 2) \<and>
   configured_depth (example_settings example_document example_config (PDict [])) ''running'' ''ms2lda'' = Inr (PStr ''N/A'')"
proof -
  let ?s = "example_settings example_document example_config (PDict [])"
  have 1: "get_depths ?s [''sirius'', ''classyfire''] ''integration'' = Inr [(''sirius'', PInt 3), (''classyfire'', PInt 4)]"
    by (simp add: get_depths_def get_depths_step_def configured_depth_def match_depth_def example_settings_def example_config_def)
  have 2: "''sirius'' \<in> set [''sirius'', ''classyfire'']" by simp
  have 3: "configured_depth ?s ''integration'' ''sirius'' = Inr (PStr ''3'')"
    by (simp add: configured_depth_def example_settings_def example_config_def)
  have 4: "configured_depth ?s ''integration'' ''classyfire'' = Inr (PInt 4)"
    by (simp add: configured_depth_def example_settings_def example_config_def)
  have 5: "configured_depth ?s ''running'' ''classyfire'' = Inr (PInt 2)"
    by (simp add: configured_depth_def example_settings_def example_config_def)
  have 6: "configured_depth ?s ''running'' ''ms2lda'' = Inr (PStr ''N/A'')"
    by (simp add: configured_depth_def example_settings_def example_config_def)
  from resolved_depth_of_recognised_value[OF 1 2 3]
  have "map_of [(''sirius'', PInt 3), (''classyfire'', PInt 4)] ''sirius'' = Some (PInt 3)" by blast
  with 1 3 4 5 6 show ?thesis by blast
qed

text \<open>
  The claim C4 as stated also says that every tool of the input receives a resolved
  depth. A tool whose depth is 5 receives none: \<^verbatim>\<open>toxtree\<close> is missing from the
  result.
\<close>

theorem unrecognised_depth_gets_no_entry:
  "get_depths (example_settings example_document example_config (PDict [])) [''mzmine'', ''toxtree''] ''running''
     = Inr [(''mzmine'', PInt 1)]"
  by (simp add: get_depths_def get_depths_step_def configured_depth_def match_depth_def example_settings_def example_config_def)

section \<open>The trace of a run\<close>

text \<open>No tool operation changes the paths dictionary.\<close>

lemma call_Inr_iff: "(call env f args r k = Inr y) = (\<exists>res w'. external env f args (world r) = Inr (res, w') \<and> k res (r\<lparr>world := w'\<rparr>) = Inr y)"
  by (auto simp: call_def andThen_Inr_iff)

lemma create_smiles_settings: "create_smiles_csv_from_df env h n r = Inr (x, r') \<Longrightarrow> settings r' = settings r"
  by (auto simp: call_Inr_iff split: obj.splits if_splits)

lemma path_cong: "settings r' = settings r \<Longrightarrow> path r' k = path r k"
  by (simp add: path_def)

lemma run_classyfire_paths: "run_classyfire_case env r = Inr r' \<Longrightarrow> paths (settings r') = paths (settings r)"
  by (auto simp: run_classyfire_case_def andThen_Inr_iff call_Inr_iff simp del: create_smiles_csv_from_df.simps dest!: create_smiles_settings)

lemma run_matchms_paths: "run_matchms_case env r = Inr r' \<Longrightarrow> paths (settings r') = paths (settings r)"
  by (auto simp: run_matchms_case_def andThen_Inr_iff call_Inr_iff)

lemma run_ms2lda_paths: "run_ms2lda_case env r = Inr r' \<Longrightarrow> paths (settings r') = paths (settings r)"
  by (auto simp: run_ms2lda_case_def andThen_Inr_iff call_Inr_iff Let_def split: option.splits)

lemma run_mzmine_paths: "run_mzmine_case env r = Inr r' \<Longrightarrow> paths (settings r') = paths (settings r)"
  by (auto simp: run_mzmine_case_def andThen_Inr_iff call_Inr_iff Let_def split: option.splits)

lemma run_sirius_paths: "run_sirius_case env r = Inr r' \<Longrightarrow> paths (settings r') = paths (settings r)"
  by (auto simp: run_sirius_case_def andThen_Inr_iff call_Inr_iff Let_def split: option.splits)

lemma run_toxtree_paths: "run_toxtree_case env r = Inr r' \<Longrightarrow> paths (settings r') = paths (settings r)"
  by (auto simp: run_toxtree_case_def andThen_Inr_iff call_Inr_iff Let_def simp del: create_smiles_csv_from_df.simps split: option.splits if_splits dest!: create_smiles_settings)

lemma run_tool_paths: "run_tool env tool r = Inr r' \<Longrightarrow> paths (settings r') = paths (settings r)"
  by (auto simp: run_tool_def split: if_splits
      dest: run_classyfire_paths run_matchms_paths run_ms2lda_paths run_mzmine_paths run_sirius_paths run_toxtree_paths)

lemma merge_table_paths: "merge_table env t tab r = Inr r' \<Longrightarrow> paths (settings r') = paths (settings r)"
  by (auto simp: merge_table_def andThen_Inr_iff call_Inr_iff)

lemma integrate_tool_paths: "integrate_tool env tool r = Inr r' \<Longrightarrow> paths (settings r') = paths (settings r)"
  by (auto simp: integrate_tool_def integrate_classyfire_case_def integrate_ms2lda_case_def integrate_mzmine_case_def
       integrate_sirius_case_def integrate_toxtree_case_def integrate_plastchemdb_case_def andThen_Inr_iff call_Inr_iff
      split: if_splits dest!: merge_table_paths)

text \<open>The trace of a monadic step, of the loops and of the whole run.\<close>

lemma fst_tbind: "fst (tbind m k) = fst m @ (case snd m of Inl e \<Rightarrow> [] | Inr x \<Rightarrow> fst (k x))"
  by (simp add: tbind_alt split: sum.splits)

lemma snd_tbind: "snd (tbind m k) = (case snd m of Inl e \<Rightarrow> Inl e | Inr x \<Rightarrow> snd (k x))"
  by (simp add: tbind_alt split: sum.splits)

lemma follows_tbind:
  assumes "follows p m A" and "\<And>r. snd m = Inr r \<Longrightarrow> paths (settings r) = p \<Longrightarrow> follows p (k r) B"
  shows "follows p (tbind m k) (A @ B)"
proof (cases "snd m")
  case (Inl e)
  with assms(1) show ?thesis
    by (auto simp: follows_def fst_tbind snd_tbind intro: prefix_order.trans)
next
  case (Inr r)
  with assms(1) have A: "fst m = A" and P: "paths (settings r) = p"
    by (auto simp: follows_def)
  from assms(2)[OF Inr P] have "follows p (k r) B" .
  with Inr A show ?thesis
    by (auto simp: follows_def fst_tbind snd_tbind split: sum.splits)
qed

lemma follows_treturn: "paths (settings r) = p \<Longrightarrow> follows p (treturn r) []"
  by (simp add: follows_def treturn_def)

lemma follows_step: "(\<And>r'. m = Inr r' \<Longrightarrow> paths (settings r') = p) \<Longrightarrow> follows p (step ev m) [ev]"
  by (auto simp: follows_def step_def split: sum.splits)

lemma follows_run_tools: "paths (settings (r :: 'w runner)) = p \<Longrightarrow> follows p (run_tools env ts r) (map RunTool ts)"
proof (induction ts arbitrary: r)
  case Nil
  then show ?case by (simp add: follows_treturn)
next
  case (Cons t ts)
  have "follows p (tbind (step (RunTool t) (run_tool env t r)) (run_tools env ts)) ([RunTool t] @ map RunTool ts)"
  proof (rule follows_tbind)
    show "follows p (step (RunTool t) (run_tool env t r)) [RunTool t]"
      using Cons.prems by (intro follows_step) (auto dest: run_tool_paths)
  next
    fix r' :: "'w runner" assume "paths (settings r') = p"
    then show "follows p (run_tools env ts r') (map RunTool ts)" by (rule Cons.IH)
  qed
  then show ?case by simp
qed

lemma follows_integrate_tools: "paths (settings (r :: 'w runner)) = p \<Longrightarrow> follows p (integrate_tools env ts r) (map IntegrateTool ts)"
proof (induction ts arbitrary: r)
  case Nil
  then show ?case by (simp add: follows_treturn)
next
  case (Cons t ts)
  have "follows p (tbind (step (IntegrateTool t) (integrate_tool env t r)) (integrate_tools env ts)) ([IntegrateTool t] @ map IntegrateTool ts)"
  proof (rule follows_tbind)
    show "follows p (step (IntegrateTool t) (integrate_tool env t r)) [IntegrateTool t]"
      using Cons.prems by (intro follows_step) (auto dest: integrate_tool_paths)
  next
    fix r' :: "'w runner" assume "paths (settings r') = p"
    then show "follows p (integrate_tools env ts r') (map IntegrateTool ts)" by (rule Cons.IH)
  qed
  then show ?case by simp
qed

lemma follows_load_graph: "paths (settings r) = p \<Longrightarrow> follows p (load_graph env r) [ReadGraphml (base_network_path p)]"
  by (auto simp: follows_def load_graph_def tbind_alt lift_def step_def treturn_def path_def base_network_path_def split: sum.splits)

lemma follows_make_network: "paths (settings r) = p \<Longrightarrow> follows p (make_network env r) [NetworkToDf, ConsensusSmiles, ConsensusFormula]"
  by (auto simp: follows_def make_network_def tbind_alt step_def treturn_def Let_def split: sum.splits)

lemma follows_run_depth:
  assumes "paths (settings r) = p"
  shows "follows p (run_depth env rd idp d r) (depth_plan env p rd idp d)"
  unfolding run_depth_def depth_plan_def bucket_schedule_def
  apply (rule follows_tbind)
   apply (simp add: follows_load_graph follows_treturn assms)
  apply (rule follows_tbind)
   apply (simp add: follows_make_network follows_treturn)
  apply (rule follows_tbind)
   apply (erule follows_run_tools)
  apply (erule follows_integrate_tools)
  done

lemma follows_depth_loop:
  "paths (settings r) = p \<Longrightarrow> follows p (depth_loop env rd idp ds r) (concat (map (depth_plan env p rd idp) ds))"
proof (induction ds arbitrary: r)
  case Nil
  then show ?case by (simp add: follows_treturn)
next
  case (Cons d ds)
  show ?case
    apply simp
    apply (rule follows_tbind)
     apply (rule follows_run_depth[OF Cons.prems])
    apply (erule Cons.IH)
    done
qed

lemma follows_class_loop: "paths (settings r) = p \<Longrightarrow> follows p (class_loop env cs r) (map ConsensusClass cs)"
proof (induction cs arbitrary: r)
  case Nil
  then show ?case by (simp add: follows_treturn)
next
  case (Cons c cs)
  show ?case
  proof (cases "assign_apply env c (''canopus:CF_'' @ c) (\<lambda>x. get_consensus_class x c) (network_df r)")
    case (Inl e)
    then show ?thesis by (simp add: follows_def tbind_alt step_def)
  next
    case (Inr df)
    have "follows p (class_loop env cs (r\<lparr>network_df := df\<rparr>)) (map ConsensusClass cs)"
      by (rule Cons.IH) (simp add: Cons.prems)
    with Inr show ?thesis
      by (auto simp: follows_def tbind_alt step_def split: sum.splits)
  qed
qed

lemma produce_paths: "produce_integrated_graphml env r = Inr r' \<Longrightarrow> paths (settings r') = paths (settings r)"
  by (auto simp: produce_integrated_graphml_def andThen_Inr_iff)

lemma follows_main: "follows (paths (settings r)) (run_and_integrate_per_depth env r) (plan env r)"
proof (cases "get_depths (settings r) (to_run (settings r)) ''running''")
  case (Inl e)
  then show ?thesis
    by (simp add: run_and_integrate_per_depth_def follows_def tbind_alt lift_def)
next
  case rd: (Inr rd)
  show ?thesis
  proof (cases "get_depths (settings r) (to_integrate (settings r)) ''integration''")
    case (Inl e)
    with rd show ?thesis
      by (simp add: run_and_integrate_per_depth_def follows_def tbind_alt lift_def)
  next
    case idp: (Inr idp)
    let ?p = "paths (settings r)"
    have eq: "run_and_integrate_per_depth env r =
      tbind (depth_loop env rd idp depth_order r) (\<lambda>r1.
        tbind (class_loop env [''subclass'', ''class'', ''superclass''] r1) (\<lambda>r2.
          step ProduceGraphml (produce_integrated_graphml env r2)))"
      using rd idp by (simp add: run_and_integrate_per_depth_def tbind_alt lift_def)
    have "follows ?p (run_and_integrate_per_depth env r)
       (concat (map (depth_plan env ?p rd idp) depth_order) @
        (map ConsensusClass [''subclass'', ''class'', ''superclass''] @ [ProduceGraphml]))"
      unfolding eq
      apply (rule follows_tbind)
       apply (rule follows_depth_loop, rule refl)
      apply (rule follows_tbind)
       apply (erule follows_class_loop)
      apply (rule follows_step)
      apply (auto dest: produce_paths)
      done
    then show ?thesis
      using rd idp by (simp add: plan_def running_depths_def integration_depths_def resolved_def)
  qed
qed

text \<open>The tools of a bucket are those whose resolved depth is the bucket's, and the plan is sorted by stage.\<close>

lemma resolved_ok: "depths_ok (resolved (get_depths s tools goal))"
  by (cases "get_depths s tools goal") (auto simp: resolved_def dest: get_depths_ok, simp add: depths_ok_def)

lemma py_eq_depth_order: "a \<in> set depth_order \<Longrightarrow> b \<in> set depth_order \<Longrightarrow> py_eq a b \<Longrightarrow> a = b"
  by (auto simp: depth_order_def py_eq_def)

lemma tools_at_depth:
  assumes "depths_ok ds" "d \<in> set depth_order" "t \<in> set (tools_at env ds d)"
  shows "depth_of ds t = d"
proof -
  from assms(3) obtain d' where in_ds: "(t, d') \<in> set ds" and eq: "py_eq d' d"
    by (auto simp: tools_at_def set_py_set_iter)
  from assms(1) in_ds have "map_of ds t = Some d'" and "d' \<in> set depth_order"
    by (auto simp: depths_ok_def)
  with eq assms(2) show ?thesis
    by (auto simp: depth_of_def dest: py_eq_depth_order)
qed

lemma bucket_stage:
  assumes "depths_ok rd" "depths_ok idp" "d \<in> set depth_order" "e \<in> set (bucket_schedule env rd idp d)"
  shows "5 * bucket_index d + 3 \<le> stage rd idp e \<and> stage rd idp e \<le> 5 * bucket_index d + 4"
  using assms by (auto simp: bucket_schedule_def dest: tools_at_depth)

lemma bucket_sorted:
  assumes "depths_ok rd" "depths_ok idp" "d \<in> set depth_order"
  shows "sorted (map (stage rd idp) (bucket_schedule env rd idp d))"
proof -
  have 1: "map (stage rd idp) (map RunTool (tools_at env rd d)) = replicate (length (tools_at env rd d)) (5 * bucket_index d + 3)"
    using assms by (auto simp: map_replicate_const[symmetric] dest: tools_at_depth)
  have 2: "map (stage rd idp) (map IntegrateTool (tools_at env idp d)) = replicate (length (tools_at env idp d)) (5 * bucket_index d + 4)"
    using assms by (auto simp: map_replicate_const[symmetric] dest: tools_at_depth)
  show ?thesis
    unfolding bucket_schedule_def map_append 1 2
    by (simp add: sorted_append)
qed

lemma plan_sorted:
  fixes r :: "'w runner"
  defines "rd \<equiv> running_depths r" and "idp \<equiv> integration_depths r"
  shows "sorted (map (stage rd idp) (plan env r))"
proof -
  have ok: "depths_ok rd" "depths_ok idp"
    by (simp_all add: rd_def idp_def running_depths_def integration_depths_def resolved_ok)
  have s: "\<And>d. d \<in> set depth_order \<Longrightarrow> sorted (map (stage rd idp) (bucket_schedule env rd idp d))"
    by (rule bucket_sorted[OF ok])
  have b1: "\<forall>e\<in>set (bucket_schedule env rd idp (PInt 1)). 3 \<le> stage rd idp e \<and> stage rd idp e \<le> 4"
    using bucket_stage[OF ok, of "PInt 1" _ env] by (simp add: depth_order_def bucket_index_def)
  have b2: "\<forall>e\<in>set (bucket_schedule env rd idp (PInt 2)). 8 \<le> stage rd idp e \<and> stage rd idp e \<le> 9"
    using bucket_stage[OF ok, of "PInt 2" _ env] by (simp add: depth_order_def bucket_index_def)
  have b3: "\<forall>e\<in>set (bucket_schedule env rd idp (PInt 3)). 13 \<le> stage rd idp e \<and> stage rd idp e \<le> 14"
    using bucket_stage[OF ok, of "PInt 3" _ env] by (simp add: depth_order_def bucket_index_def)
  have b4: "\<forall>e\<in>set (bucket_schedule env rd idp (PInt 4)). 18 \<le> stage rd idp e \<and> stage rd idp e \<le> 19"
    using bucket_stage[OF ok, of "PInt 4" _ env] by (simp add: depth_order_def bucket_index_def)
  have b5: "\<forall>e\<in>set (bucket_schedule env rd idp (PStr ''N/A'')). 23 \<le> stage rd idp e \<and> stage rd idp e \<le> 24"
    using bucket_stage[OF ok, of "PStr ''N/A''" _ env] by (simp add: depth_order_def bucket_index_def)
  have pl: "plan env r =
      bucket_schedule env rd idp (PInt 1) @ bucket_schedule env rd idp (PInt 2) @
      ReadGraphml (base_network_path (paths (settings r))) # bucket_schedule env rd idp (PInt 3) @
      NetworkToDf # ConsensusSmiles # ConsensusFormula # bucket_schedule env rd idp (PInt 4) @
      bucket_schedule env rd idp (PStr ''N/A'') @
      [ConsensusClass ''subclass'', ConsensusClass ''class'', ConsensusClass ''superclass'', ProduceGraphml]"
    by (simp add: plan_def depth_order_def depth_plan_def py_eq_def rd_def idp_def)
  show ?thesis
    unfolding pl using s b1 b2 b3 b4 b5
    by (fastforce simp: sorted_append depth_order_def)
qed

lemma prefix_sorted_map: "prefix xs ys \<Longrightarrow> sorted (map f ys) \<Longrightarrow> sorted (map f xs)"
  by (auto simp: prefix_def sorted_append)

lemma trace_prefix_plan: "prefix (fst (run_and_integrate_per_depth env r)) (plan env r)"
  using follows_main[of r env] by (simp add: follows_def)


lemma trace_sorted:
  "sorted (map (stage (running_depths r) (integration_depths r)) (fst (run_and_integrate_per_depth env r)))"
  by (rule prefix_sorted_map[OF trace_prefix_plan plan_sorted])

lemma plan_explicit:
  "plan env r =
      bucket_schedule env (running_depths r) (integration_depths r) (PInt 1) @
      bucket_schedule env (running_depths r) (integration_depths r) (PInt 2) @
      [ReadGraphml (base_network_path (paths (settings r)))] @
      bucket_schedule env (running_depths r) (integration_depths r) (PInt 3) @
      [NetworkToDf, ConsensusSmiles, ConsensusFormula] @
      bucket_schedule env (running_depths r) (integration_depths r) (PInt 4) @
      bucket_schedule env (running_depths r) (integration_depths r) (PStr ''N/A'') @
      [ConsensusClass ''subclass'', ConsensusClass ''class'', ConsensusClass ''superclass'', ProduceGraphml]"
  by (simp add: plan_def depth_order_def depth_plan_def py_eq_def)

lemma plan_dispatch_bucket:
  assumes "e \<in> set (plan env r)" "is_dispatch e"
  shows "\<exists>d\<in>set depth_order. e \<in> set (bucket_schedule env (running_depths r) (integration_depths r) d)"
  using assms unfolding plan_explicit by (auto simp: depth_order_def)

lemma depths_ok_running: "depths_ok (running_depths r)"
  by (simp add: running_depths_def resolved_ok)

lemma depths_ok_integration: "depths_ok (integration_depths r)"
  by (simp add: integration_depths_def resolved_ok)

lemma bucket_index_depth_order: "d \<in> set depth_order \<Longrightarrow> bucket_index d \<le> 4"
  by (auto simp: depth_order_def bucket_index_def)


text \<open>The example workflow: the constructor returns \<open>example_started\<close>, whose run
  returns after the trace below.\<close>

lemma example_constructed: "WorkflowRunner_init example_env example_document () = Inr example_started"
  by (simp add: runner_eval example_started_def)



























section \<open>Consensus of the classification\<close>

text \<open>What \<^verbatim>\<open>get_consensus_class\<close> returns, for every row.\<close>

lemma get_consensus_class_value:
  "get_consensus_class row c =
     (case row_index row (''CF:'' @ c) of
        Inl e \<Rightarrow> Inl (KeyError (''CF:'' @ c))
      | Inr cf \<Rightarrow>
          Inr (if \<not> py_eq cf (PStr ''N/A'') then cf
               else if truthy (row_get row (''canopus:CF_'' @ c)) then row_get row (''canopus:CF_'' @ c)
               else PStr ''N/A''))"
proof (cases "map_of row (''CF:'' @ c)")
  case None
  then show ?thesis
    by (simp add: get_consensus_class_def default_na_def Let_def row_index_def update_conv')
next
  case (Some cf)
  then have "row_index row (''CF:'' @ c) = Inr cf" by (simp add: row_index_def)
  then show ?thesis
    by (auto simp: get_consensus_class_def default_na_def Let_def row_index_update row_get_update row_index_truthy
          cong: if_cong)
qed

lemma filter_closing_plan:
  "filter is_closing (plan env r) =
     [ConsensusClass ''subclass'', ConsensusClass ''class'', ConsensusClass ''superclass'', ProduceGraphml]"
  unfolding plan_explicit by (simp add: bucket_schedule_def filter_empty_conv)

lemmas class_eval =
  example_runner_sirius_def example_runner_def example_nodes_sirius_def example_env_def
  tbind_def step_def treturn_def apply_row_def
  get_consensus_class_def default_na_def row_get_def row_index_def Let_def

text \<open>
  C3. The claim: after all depth buckets and before the graph is serialized, a
  consensus value is computed for each of subclass, class and superclass and every
  row of the projection, preferring the database value (the column \<^verbatim>\<open>CF:...\<close>) over
  the computed one (\<^verbatim>\<open>canopus:CF_...\<close>) under the same precedence rule as the other
  consensus fields. The order is as claimed (first conjunct: the trace is sorted by
  stage, every dispatch has a stage below that of the closing steps, and the closing
  steps are the three class columns, then the output). The rule is not the one
  claimed. \<^verbatim>\<open>get_consensus_class\<close> reads \<^verbatim>\<open>row["CF:..."]\<close> and compares it with
  \<^verbatim>\<open>"N/A"\<close> (second conjunct, for every row). So a row without that column raises
  \<^verbatim>\<open>KeyError\<close>, where the rule, and \<^verbatim>\<open>get_consensus_formula\<close> on a row without its
  database column, give the computed value \<^verbatim>\<open>"X"\<close>; and a database value \<^verbatim>\<open>None\<close> or
  \<^verbatim>\<open>nan\<close> is returned as it is, where the rule and \<^verbatim>\<open>get_consensus_formula\<close> fall
  back to \<^verbatim>\<open>"X"\<close>. The projection of a run that did not integrate \<^verbatim>\<open>classyfire\<close> has
  no such column: the loop over the three classes raises at its first class, and
  no graph is written.
\<close>

theorem class_consensus_raises_without_database_column:
  "(let rd = running_depths r; idp = integration_depths r;
        T = fst (run_and_integrate_per_depth env r)
    in sorted (map (stage rd idp) T) \<and>
       list_all (\<lambda>e. stage rd idp e < 25) (dispatches T) \<and>
       prefix (filter is_closing T)
         [ConsensusClass ''subclass'', ConsensusClass ''class'', ConsensusClass ''superclass'',
          ProduceGraphml]) \<and>
   get_consensus_class row c =
     (case row_index row (''CF:'' @ c) of
        Inl e \<Rightarrow> Inl (KeyError (''CF:'' @ c))
      | Inr cf \<Rightarrow>
          Inr (if \<not> py_eq cf (PStr ''N/A'') then cf
               else if truthy (row_get row (''canopus:CF_'' @ c)) then row_get row (''canopus:CF_'' @ c)
               else PStr ''N/A'')) \<and>
   get_consensus_class [(''canopus:CF_class'', PStr ''X'')] ''class'' = Inl (KeyError ''CF:class'') \<and>
   get_consensus_formula [(''sirius:molecularFormula'', PStr ''X'')] = Inr (PStr ''X'') \<and>
   get_consensus_class [(''canopus:CF_class'', PStr ''X''), (''CF:class'', PNone)] ''class'' = Inr PNone \<and>
   get_consensus_class [(''canopus:CF_class'', PStr ''X''), (''CF:class'', PNaN)] ''class'' = Inr PNaN \<and>
   get_consensus_formula [(''sirius:molecularFormula'', PStr ''X''), (''sirius_db:molecularFormula'', PNone)]
     = Inr (PStr ''X'') \<and>
   get_consensus_formula [(''sirius:molecularFormula'', PStr ''X''), (''sirius_db:molecularFormula'', PNaN)]
     = Inr (PStr ''X'') \<and>
   spec_consensus (PStr ''X'') PNone = PStr ''X'' \<and>
   spec_consensus (PStr ''X'') PNaN = PStr ''X'' \<and>
   class_loop example_env [''subclass'', ''class'', ''superclass''] example_runner_sirius =
     ([ConsensusClass ''subclass''], Inl (KeyError ''CF:subclass''))"
proof (intro conjI)
  let ?rd = "running_depths r" and ?idp = "integration_depths r"
  let ?T = "fst (run_and_integrate_per_depth env r)"
  have d: "list_all (\<lambda>e. stage ?rd ?idp e < 25) (dispatches ?T)"
    unfolding list_all_iff
  proof
    fix e assume "e \<in> set (dispatches ?T)"
    then have d: "is_dispatch e" and "e \<in> set ?T" by (auto simp: dispatches_def)
    with trace_prefix_plan[of env r] have "e \<in> set (plan env r)"
      by (auto simp: prefix_def)
    from plan_dispatch_bucket[OF this d] obtain dd where dd: "dd \<in> set depth_order"
      and e: "e \<in> set (bucket_schedule env ?rd ?idp dd)" by blast
    from bucket_stage[OF depths_ok_running depths_ok_integration dd e] bucket_index_depth_order[OF dd]
    show "stage ?rd ?idp e < 25" by simp
  qed
  have p: "prefix (filter is_closing ?T)
         [ConsensusClass ''subclass'', ConsensusClass ''class'', ConsensusClass ''superclass'', ProduceGraphml]"
    using filter_mono_prefix[OF trace_prefix_plan, of is_closing env r] by (simp add: filter_closing_plan)
  show "let rd = running_depths r; idp = integration_depths r;
        T = fst (run_and_integrate_per_depth env r)
    in sorted (map (stage rd idp) T) \<and>
       list_all (\<lambda>e. stage rd idp e < 25) (dispatches T) \<and>
       prefix (filter is_closing T)
         [ConsensusClass ''subclass'', ConsensusClass ''class'', ConsensusClass ''superclass'',
          ProduceGraphml]"
    using trace_sorted[of r env] d p by (simp add: Let_def)
next
  show "get_consensus_class row c =
     (case row_index row (''CF:'' @ c) of
        Inl e \<Rightarrow> Inl (KeyError (''CF:'' @ c))
      | Inr cf \<Rightarrow>
          Inr (if \<not> py_eq cf (PStr ''N/A'') then cf
               else if truthy (row_get row (''canopus:CF_'' @ c)) then row_get row (''canopus:CF_'' @ c)
               else PStr ''N/A''))"
    by (rule get_consensus_class_value)
next
  show "get_consensus_class [(''canopus:CF_class'', PStr ''X'')] ''class'' = Inl (KeyError ''CF:class'')"
    by (simp add: get_consensus_class_def default_na_def row_get_def row_index_def)
next
  show "get_consensus_formula [(''sirius:molecularFormula'', PStr ''X'')] = Inr (PStr ''X'')"
    by (simp add: get_consensus_formula_def default_na_def row_get_def row_index_def)
next
  show "get_consensus_class [(''canopus:CF_class'', PStr ''X''), (''CF:class'', PNone)] ''class'' = Inr PNone"
    by (simp add: get_consensus_class_def default_na_def row_get_def row_index_def py_eq_def)
next
  show "get_consensus_class [(''canopus:CF_class'', PStr ''X''), (''CF:class'', PNaN)] ''class'' = Inr PNaN"
    by (simp add: get_consensus_class_def default_na_def row_get_def row_index_def py_eq_def)
next
  show "get_consensus_formula [(''sirius:molecularFormula'', PStr ''X''), (''sirius_db:molecularFormula'', PNone)]
     = Inr (PStr ''X'')"
    by (simp add: get_consensus_formula_def default_na_def row_get_def row_index_def)
next
  show "get_consensus_formula [(''sirius:molecularFormula'', PStr ''X''), (''sirius_db:molecularFormula'', PNaN)]
     = Inr (PStr ''X'')"
    by (simp add: get_consensus_formula_def default_na_def row_get_def row_index_def)
next
  show "spec_consensus (PStr ''X'') PNone = PStr ''X''"
    by (simp add: spec_consensus_def absent_def)
next
  show "spec_consensus (PStr ''X'') PNaN = PStr ''X''"
    by (simp add: spec_consensus_def absent_def)
next
  show "class_loop example_env [''subclass'', ''class'', ''superclass''] example_runner_sirius =
     ([ConsensusClass ''subclass''], Inl (KeyError ''CF:subclass''))"
    by (simp add: class_eval)
qed

section \<open>The attributes of the output graph\<close>

lemma for_each_invariant_set:
  assumes "for_each f xs s = Inr s'" and "P s"
    and "\<And>x a b. x \<in> set xs \<Longrightarrow> f x a = Inr b \<Longrightarrow> P a \<Longrightarrow> P b"
  shows "P s'"
  using assms
proof (induction xs arbitrary: s)
  case Nil
  then show ?case by simp
next
  case (Cons x xs)
  from Cons.prems(1) obtain s1 where 1: "f x s = Inr s1" and 2: "for_each f xs s1 = Inr s'"
    by (auto simp: andThen_Inr_iff)
  from Cons.prems(3)[OF _ 1 Cons.prems(2)] have s1: "P s1" by simp
  show ?case
  proof (rule Cons.IH[OF 2 s1])
    fix y a b assume "y \<in> set xs" "f y a = Inr b" "P a"
    then show "P b" using Cons.prems(3)[of y a b] by simp
  qed
qed

lemma attrs_in_update: "attrs_in A attrs \<Longrightarrow> v \<in> A \<Longrightarrow> attrs_in A (AList.update k v attrs)"
  unfolding attrs_in_def by (auto dest!: set_update_cases)

lemma attrs_in_merge: "attrs_in A new \<Longrightarrow> attrs_in A old \<Longrightarrow> attrs_in A (merge_attrs new old)"
  unfolding merge_attrs_def
proof (induction new arbitrary: old)
  case Nil
  then show ?case by simp
next
  case (Cons kv new)
  from Cons.prems(1) have "snd kv \<in> A" "attrs_in A new" by (auto simp: attrs_in_def)
  with Cons.prems(2) Cons.IH[of "AList.update (fst kv) (snd kv) old"] show ?case
    by (simp add: attrs_in_update)
qed

lemma set_merge_attrs: "set (merge_attrs new old) \<subseteq> set new \<union> set old"
  unfolding merge_attrs_def
proof (induction new arbitrary: old)
  case Nil
  then show ?case by simp
next
  case (Cons kv new)
  have "set (AList.update (fst kv) (snd kv) old) \<subseteq> insert kv (set old)"
    using set_update_cases[of _ _ "fst kv" "snd kv" old] by auto
  with Cons.IH[of "AList.update (fst kv) (snd kv) old"] show ?case by auto
qed

lemma node_attrs_in_add_node: "node_attrs_in A g \<Longrightarrow> node_attrs_in A (add_node n g)"
  by (simp add: node_attrs_in_def add_node_def attrs_in_def)

lemma nodes_add_edge: "nodes (add_edge u v attrs g) = nodes (add_node v (add_node u g))"
  by (simp add: add_edge_def Let_def)

lemma node_attrs_in_add_edge: "node_attrs_in A g \<Longrightarrow> node_attrs_in A (add_edge u v attrs g)"
  by (simp add: node_attrs_in_def nodes_add_edge add_node_def attrs_in_def)

lemma add_edge_row_Inr:
  "add_edge_row ir g = Inr g' \<Longrightarrow>
   g' = add_edge (row_get (snd ir) ''source'') (row_get (snd ir) ''target'') (edge_attrs (snd ir)) g"
  by (simp add: add_edge_row_def Let_def split: if_splits)

lemma from_pandas_edgelist_rows:
  "from_pandas_edgelist ob = Inr g \<Longrightarrow>
   \<exists>el. ob = Df el \<and> for_each add_edge_row (rows el) \<lparr>nodes = [], edges = []\<rparr> = Inr g"
  by (cases ob) (simp_all split: if_splits)

lemma from_pandas_edgelist_nodes: "from_pandas_edgelist ob = Inr g \<Longrightarrow> node_attrs_in A g"
proof -
  assume "from_pandas_edgelist ob = Inr g"
  from from_pandas_edgelist_rows[OF this] obtain el :: dataframe
    where fe: "for_each add_edge_row (rows el) \<lparr>nodes = [], edges = []\<rparr> = Inr g" by blast
  show ?thesis
  proof (rule for_each_invariant[OF fe, where P = "node_attrs_in A"])
    show "node_attrs_in A \<lparr>nodes = [], edges = []\<rparr>" by (simp add: node_attrs_in_def)
  next
    fix x a b assume "add_edge_row x a = Inr b" "node_attrs_in A a"
    then show "node_attrs_in A b" by (auto dest!: add_edge_row_Inr intro: node_attrs_in_add_edge)
  qed
qed

text \<open>Every attribute of every edge is a cell of the edge list, under its column.\<close>

lemma edges_add_edge:
  assumes "\<forall>e\<in>set (edges g). set (snd e) \<subseteq> S" and "set attrs \<subseteq> S"
  shows "\<forall>e\<in>set (edges (add_edge u v attrs g)). set (snd e) \<subseteq> S"
proof -
  have e: "edges (add_node v (add_node u g)) = edges g" by (simp add: add_node_def)
  have m: "kv \<in> S" if "(k, old) \<in> set (edges g)" and "kv \<in> set (merge_attrs attrs old)" for k old kv
  proof -
    from that(1) assms(1) have "set old \<subseteq> S" by force
    with set_merge_attrs[of attrs old] assms(2) that(2) show ?thesis by blast
  qed
  show ?thesis
    using assms(1) assms(2) by (auto simp: add_edge_def Let_def e dest: m)
qed

lemma edge_attrs_subset: "set (edge_attrs r) \<subseteq> set r"
  by (auto simp: edge_attrs_def)

lemma from_pandas_edgelist_edges:
  assumes "from_pandas_edgelist (Df el) = Inr g0"
  shows "\<forall>e\<in>set (edges g0). \<forall>kv\<in>set (snd e). \<exists>ir\<in>set (rows el). kv \<in> set (snd ir)"
proof -
  let ?S = "\<Union>ir\<in>set (rows el). set (snd ir)"
  from from_pandas_edgelist_rows[OF assms]
  have fe: "for_each add_edge_row (rows el) \<lparr>nodes = [], edges = []\<rparr> = Inr g0" by simp
  have "\<forall>e\<in>set (edges g0). set (snd e) \<subseteq> ?S"
  proof (rule for_each_invariant_set[OF fe, where P = "\<lambda>g. \<forall>e\<in>set (edges g). set (snd e) \<subseteq> ?S"])
    show "\<forall>e\<in>set (edges \<lparr>nodes = [], edges = []\<rparr>). set (snd e) \<subseteq> ?S" by simp
  next
    fix x a b
    assume x: "x \<in> set (rows el)" and ab: "add_edge_row x a = Inr b"
      and a: "\<forall>e\<in>set (edges a). set (snd e) \<subseteq> ?S"
    from x edge_attrs_subset[of "snd x"] have "set (edge_attrs (snd x)) \<subseteq> ?S" by blast
    from edges_add_edge[OF a this] add_edge_row_Inr[OF ab]
    show "\<forall>e\<in>set (edges b). set (snd e) \<subseteq> ?S" by simp
  qed
  then show ?thesis by blast
qed

lemma node_attrs_in_set_node_attrs:
  "node_attrs_in A g \<Longrightarrow> attrs_in A attrs \<Longrightarrow> node_attrs_in A (set_node_attrs n attrs g)"
  by (auto simp: node_attrs_in_def set_node_attrs_def list_all_iff attrs_in_merge)

lemma node_attrs_in_overlay:
  "node_attrs_in A g \<Longrightarrow> attrs_in A (snd na) \<Longrightarrow> node_attrs_in A (overlay_node na g)"
  by (simp add: overlay_node_def node_attrs_in_set_node_attrs node_attrs_in_add_node)

lemma node_attrs_in_fold_overlay:
  "node_attrs_in A g \<Longrightarrow> list_all (\<lambda>na. attrs_in A (snd na)) nd \<Longrightarrow> node_attrs_in A (fold overlay_node nd g)"
  by (induction nd arbitrary: g) (simp_all add: node_attrs_in_overlay)

lemma edges_overlay: "edges (overlay_node na g) = edges g"
  by (simp add: overlay_node_def set_node_attrs_def add_node_def)

lemma edges_fold_overlay: "edges (fold overlay_node nd g) = edges g"
  by (induction nd arbitrary: g) (simp_all add: edges_overlay)

text \<open>With \<^verbatim>\<open>convert_missing\<close> as the spec describes it, every cleaned cell is a
  text that is \<^verbatim>\<open>"N/A"\<close> or no raw marker, whatever \<^verbatim>\<open>astype(str)\<close> does with a
  missing cell; a column of texts is stored as it is.\<close>

lemma clean_cell_spec:
  "convert_missing env = convert_missing_spec markers \<Longrightarrow>
   \<exists>s. clean_cell env v = PStr s \<and> (s = ''N/A'' \<or> s \<notin> set markers)"
  by (simp add: clean_cell_def astype_str_def convert_missing_spec_def)

lemma clean_rows_spec:
  assumes "convert_missing env = convert_missing_spec markers"
  shows "list_all (\<lambda>na. attrs_in {v. \<exists>s. v = PStr s \<and> (s = ''N/A'' \<or> s \<notin> set markers)} (snd na))
           (clean_rows env rs)"
proof -
  have "stored_cell env vs (clean_cell env v) \<in> {v. \<exists>s. v = PStr s \<and> (s = ''N/A'' \<or> s \<notin> set markers)}" for vs v
    using clean_cell_spec[OF assms, of v] by (auto simp: stored_cell_def)
  then show ?thesis
    by (auto simp: clean_rows_def clean_row_def Let_def list_all_iff attrs_in_def)
qed

lemma nodes_dict_of_clean:
  "nodes_dict_of env df = Inr nd \<Longrightarrow> convert_missing env = convert_missing_spec markers \<Longrightarrow>
   list_all (\<lambda>na. attrs_in {v. \<exists>s. v = PStr s \<and> (s = ''N/A'' \<or> s \<notin> set markers)} (snd na)) nd"
  by (cases df) (auto simp: clean_rows_spec split: if_splits)

lemma integrated_network_edges:
  assumes "integrated_network env r = Inr g"
  shows "\<exists>g0. from_pandas_edgelist (network_edgelist r) = Inr g0 \<and> edges g = edges g0"
  using assms by (auto simp: integrated_network_def andThen_Inr_iff edges_fold_overlay)

lemma integrated_network_nodes:
  assumes "integrated_network env r = Inr g" and "convert_missing env = convert_missing_spec markers"
  shows "node_attrs_in {v. \<exists>s. v = PStr s \<and> (s = ''N/A'' \<or> s \<notin> set markers)} g"
proof -
  from assms(1) obtain g0 nd where g0: "from_pandas_edgelist (network_edgelist r) = Inr g0"
    and nd: "nodes_dict_of env (network_df r) = Inr nd" and g: "g = fold overlay_node nd g0"
    by (auto simp: integrated_network_def andThen_Inr_iff)
  show ?thesis
    unfolding g
    by (rule node_attrs_in_fold_overlay[OF from_pandas_edgelist_nodes[OF g0] nodes_dict_of_clean[OF nd assms(2)]])
qed

lemma node_attrs_in_subgraph: "node_attrs_in A g \<Longrightarrow> set (nodes g') \<subseteq> set (nodes g) \<Longrightarrow> node_attrs_in A g'"
  by (auto simp: node_attrs_in_def list_all_iff)

text \<open>
  C7. The claim: in the serialized graph every node and edge attribute is a string
  and none is a raw empty or null marker. The docstring of
  \<^verbatim>\<open>produce_integrated_graphml\<close> says the same of all properties. The function
  converts the cells of the projection only. Of the graph it writes (with the
  topology filter as the spec describes it), the edges are those of
  \<^verbatim>\<open>nx.from_pandas_edgelist(self.network_edgelist, edge_attr=True)\<close> that the filter
  keeps, and every attribute of such an edge is a cell of the edge list under its
  column, as it is there: a number stays a number and a missing cell stays missing.
  For the nodes the claim holds, with \<^verbatim>\<open>convert_missing\<close> as the spec describes it.
\<close>

theorem edge_attributes_serialized_raw:
  assumes "serialized_graph env r = Inr g'" and "filter_component env = filter_component_spec"
  shows "(\<exists>el g0 g. network_edgelist r = Df el \<and> from_pandas_edgelist (Df el) = Inr g0 \<and>
            integrated_network env r = Inr g \<and> edges g = edges g0 \<and>
            edges g' = filter (\<lambda>e. int (length (component g (fst (fst e)))) \<le> 100 \<and>
                                  int (length (component g (snd (fst e)))) \<le> 100) (edges g0) \<and>
            (\<forall>e\<in>set (edges g0). \<forall>kv\<in>set (snd e). \<exists>ir\<in>set (rows el). kv \<in> set (snd ir))) \<and>
         (convert_missing env = convert_missing_spec markers \<longrightarrow>
            node_attrs_in {v. \<exists>s. v = PStr s \<and> (s = ''N/A'' \<or> s \<notin> set markers)} g')"
proof -
  from assms obtain g where g: "integrated_network env r = Inr g"
    and f: "filter_component_spec g 100 = Inr g'"
    by (auto simp: serialized_graph_def andThen_Inr_iff)
  from integrated_network_edges[OF g] obtain g0
    where g0: "from_pandas_edgelist (network_edgelist r) = Inr g0" and e: "edges g = edges g0" by blast
  from from_pandas_edgelist_rows[OF g0] obtain el where el: "network_edgelist r = Df el" by blast
  from f have e': "edges g' = filter (\<lambda>e. int (length (component g (fst (fst e)))) \<le> 100 \<and>
                                  int (length (component g (snd (fst e)))) \<le> 100) (edges g0)"
    by (auto simp: filter_component_spec_def e)
  from f have n': "set (nodes g') \<subseteq> set (nodes g)"
    by (auto simp: filter_component_spec_def)
  have 1: "\<exists>el g0 g. network_edgelist r = Df el \<and> from_pandas_edgelist (Df el) = Inr g0 \<and>
            integrated_network env r = Inr g \<and> edges g = edges g0 \<and>
            edges g' = filter (\<lambda>e. int (length (component g (fst (fst e)))) \<le> 100 \<and>
                                  int (length (component g (snd (fst e)))) \<le> 100) (edges g0) \<and>
            (\<forall>e\<in>set (edges g0). \<forall>kv\<in>set (snd e). \<exists>ir\<in>set (rows el). kv \<in> set (snd ir))"
    using el g0 g e e' from_pandas_edgelist_edges[OF g0[unfolded el]]
    by (intro exI[of _ el] exI[of _ g0] exI[of _ g] conjI) simp_all
  have 2: "convert_missing env = convert_missing_spec markers \<longrightarrow>
            node_attrs_in {v. \<exists>s. v = PStr s \<and> (s = ''N/A'' \<or> s \<notin> set markers)} g'"
    using integrated_network_nodes[OF g] node_attrs_in_subgraph[OF _ n'] by blast
  from 1 2 show ?thesis by (rule conjI)
qed

text \<open>
  The example: the edge list has one edge, from \<^verbatim>\<open>n1\<close> to \<^verbatim>\<open>n2\<close>, whose \<^verbatim>\<open>weight\<close>
  is missing (\<^verbatim>\<open>nan\<close>). The graph that is written has that edge with the float
  \<^verbatim>\<open>nan\<close> as its weight: no string and a raw null marker. The attributes of its
  nodes are strings, and the missing ones \<^verbatim>\<open>"N/A"\<close>.
\<close>

lemmas graph_eval =
  example_runner_def example_env_def example_nodes_def example_edges_def example_graph_def
  serialized_graph_def integrated_network_def
  add_edge_row_def add_edge_def add_node_def edge_attrs_def merge_attrs_def overlay_node_def set_node_attrs_def
  clean_rows_def clean_row_def clean_cell_def astype_str_def convert_missing_spec_def stored_cell_def
  column_values_def filter_component_spec_def component_def neighbours_def row_get_def Let_def

theorem edge_attributes_serialized_raw_witness:
  "serialized_graph example_env example_runner = Inr example_graph \<and>
   filter_component example_env = filter_component_spec \<and>
   convert_missing example_env = convert_missing_spec [''nan'', ''None''] \<and>
   network_edgelist example_runner = Df example_edges \<and>
   rows example_edges = [(PInt 0, [(''source'', PStr ''n1''), (''target'', PStr ''n2''), (''weight'', PNaN)])] \<and>
   edges example_graph = [((PStr ''n1'', PStr ''n2''), [(''weight'', PNaN)])] \<and>
   \<not> isinstance_str PNaN \<and>
   node_attrs_in {v. \<exists>s. v = PStr s \<and> (s = ''N/A'' \<or> s \<notin> set [''nan'', ''None''])} example_graph"
proof -
  have 1: "serialized_graph example_env example_runner = Inr example_graph"
    by (simp add: graph_eval)
  have 2: "filter_component example_env = filter_component_spec"
    by (simp add: example_env_def)
  have 3: "convert_missing example_env = convert_missing_spec [''nan'', ''None'']"
    by (simp add: example_env_def)
  have 4: "network_edgelist example_runner = Df example_edges"
    by (simp add: example_runner_def)
  have 5: "rows example_edges = [(PInt 0, [(''source'', PStr ''n1''), (''target'', PStr ''n2''), (''weight'', PNaN)])]"
    by (simp add: example_edges_def)
  have 6: "edges example_graph = [((PStr ''n1'', PStr ''n2''), [(''weight'', PNaN)])]"
    by (simp add: example_graph_def)
  from edge_attributes_serialized_raw[OF 1 2, of "[''nan'', ''None'']"] 3
  have 7: "node_attrs_in {v. \<exists>s. v = PStr s \<and> (s = ''N/A'' \<or> s \<notin> set [''nan'', ''None''])} example_graph"
    by blast
  from 1 2 3 4 5 6 7 show ?thesis by simp
qed

end
